theory Spec2Isabelle
  imports Complex_Main "HOL-Library.Char_ord" "HOL-Library.List_Lexorder" "HOL-Library.AList"
    "HOL-Library.Product_Lexorder"
begin

section \<open>Python values, strings and floats\<close>

text \<open>
  The repository is Python on top of pandas and scikit-learn. Strings are modelled as
  \<open>string\<close>, one \<open>char\<close> per code point below 256 (the primary file is decoded as
  ISO-8859-1, so every character it yields is one). A float is either a finite value,
  kept as an exact rational (rounding to binary64, overflow to infinity and the sign of
  zero are not modelled), or one of the three special values.
\<close>

datatype pyfloat = FNum rat | FPosInf | FNegInf | FNaN

text \<open>
  A cell of a table, and a scalar handed to a cleaner: a string, a number (Python ints
  and floats alike), a timestamp in nanoseconds, or the missing timestamp NaT. A missing
  value of an object or numeric column is the float NaN, as in pandas.
\<close>

datatype pyval = VStr string | VNum pyfloat | VTime int | VNaT

datatype exn =
    ValueError
  | KeyError string
  | TypeError
  | AttributeError
  | UnicodeDecodeError
  | FileNotFoundError
  | ParserError
  | OverflowError

fun fneg :: "pyfloat \<Rightarrow> pyfloat" where
  "fneg (FNum r) = FNum (- r)"
| "fneg FPosInf = FNegInf"
| "fneg FNegInf = FPosInf"
| "fneg FNaN = FNaN"

text \<open>Float multiplication; infinity times zero is NaN.\<close>

fun fmul :: "pyfloat \<Rightarrow> pyfloat \<Rightarrow> pyfloat" where
  "fmul (FNum a) (FNum b) = FNum (a * b)"
| "fmul FNaN _ = FNaN"
| "fmul _ FNaN = FNaN"
| "fmul FPosInf (FNum b) = (if 0 < b then FPosInf else if b < 0 then FNegInf else FNaN)"
| "fmul FNegInf (FNum b) = (if 0 < b then FNegInf else if b < 0 then FPosInf else FNaN)"
| "fmul (FNum a) FPosInf = (if 0 < a then FPosInf else if a < 0 then FNegInf else FNaN)"
| "fmul (FNum a) FNegInf = (if 0 < a then FNegInf else if a < 0 then FPosInf else FNaN)"
| "fmul FPosInf FPosInf = FPosInf"
| "fmul FPosInf FNegInf = FNegInf"
| "fmul FNegInf FPosInf = FNegInf"
| "fmul FNegInf FNegInf = FPosInf"

text \<open>\<open>x >= 0\<close> on floats: false for NaN.\<close>

fun nonneg :: "pyfloat \<Rightarrow> bool" where
  "nonneg (FNum r) = (0 \<le> r)"
| "nonneg FPosInf = True"
| "nonneg FNegInf = False"
| "nonneg FNaN = False"

subsection \<open>String methods\<close>

text \<open>\<open>str.isspace\<close> on the code points below 256.\<close>

definition is_space :: "char \<Rightarrow> bool" where
  "is_space c =
     (c \<in> set [CHR 0x09, CHR 0x0A, CHR 0x0B, CHR 0x0C, CHR 0x0D, CHR 0x1C, CHR 0x1D,
                CHR 0x1E, CHR 0x1F, CHR 0x20, CHR 0x85, CHR 0xA0])"

text \<open>\<open>s.strip()\<close>\<close>

definition py_strip :: "string \<Rightarrow> string" where
  "py_strip s = rev (dropWhile is_space (rev (dropWhile is_space s)))"

text \<open>\<open>s.replace(c, '')\<close> for a one-character \<open>c\<close>: every occurrence goes.\<close>

definition remove_char :: "char \<Rightarrow> string \<Rightarrow> string" where
  "remove_char c s = filter (\<lambda>d. d \<noteq> c) s"

text \<open>\<open>s.replace(c, '', 1)\<close>: the first occurrence goes.\<close>

fun remove_first :: "char \<Rightarrow> string \<Rightarrow> string" where
  "remove_first c [] = []"
| "remove_first c (d # ds) = (if d = c then ds else d # remove_first c ds)"

definition is_digit :: "char \<Rightarrow> bool" where
  "is_digit c = (c \<in> set ''0123456789'')"

definition digit_val :: "char \<Rightarrow> int" where
  "digit_val c = of_char c - 48"

text \<open>
  \<open>str.isdigit\<close>: non-empty, and every character a digit. Below 256 the superscripts
  two, three and one count as digits, though they are not decimal.
\<close>

definition py_isdigit :: "string \<Rightarrow> bool" where
  "py_isdigit s =
     (s \<noteq> [] \<and> list_all (\<lambda>c. is_digit c \<or> c \<in> set [CHR 0xB2, CHR 0xB3, CHR 0xB9]) s)"

text \<open>\<open>str.lower\<close> on the code points below 256.\<close>

definition lower_char :: "char \<Rightarrow> char" where
  "lower_char c =
     (let n = (of_char c :: nat)
      in if (65 \<le> n \<and> n \<le> 90) \<or> (192 \<le> n \<and> n \<le> 222 \<and> n \<noteq> 215)
         then char_of (n + 32) else c)"

definition py_lower :: "string \<Rightarrow> string" where
  "py_lower s = map lower_char s"

subsection \<open>The builtin \<open>float\<close> on a string\<close>

text \<open>
  \<open>float(s)\<close> strips white space, takes underscores out (each must stand between two
  digits), reads an optional sign, and then either \<open>inf\<close>, \<open>infinity\<close> or \<open>nan\<close> in any
  letter case or a decimal number with an optional exponent. Anything else is
  \<open>ValueError\<close>.
\<close>

definition is_float_space :: "char \<Rightarrow> bool" where
  "is_float_space c =
     (c \<in> set [CHR 0x09, CHR 0x0A, CHR 0x0B, CHR 0x0C, CHR 0x0D, CHR 0x20, CHR 0x85, CHR 0xA0])"

definition float_strip :: "string \<Rightarrow> string" where
  "float_strip s = rev (dropWhile is_float_space (rev (dropWhile is_float_space s)))"

fun strip_underscores :: "char \<Rightarrow> string \<Rightarrow> string option" where
  "strip_underscores prev [] = (if prev = CHR ''_'' then None else Some [])"
| "strip_underscores prev (c # cs) =
     (if c = CHR ''_'' then (if is_digit prev then strip_underscores c cs else None)
      else if prev = CHR ''_'' \<and> \<not> is_digit c then None
      else map_option ((#) c) (strip_underscores c cs))"

definition digits_val :: "string \<Rightarrow> int" where
  "digits_val s = foldl (\<lambda>a c. 10 * a + digit_val c) 0 s"

definition parse_sign :: "string \<Rightarrow> bool \<times> string" where
  "parse_sign s =
     (case s of
        [] \<Rightarrow> (False, [])
      | c # cs \<Rightarrow> if c = CHR ''-'' then (True, cs)
                 else if c = CHR ''+'' then (False, cs) else (False, s))"

text \<open>An unsigned decimal number with an optional exponent, the whole string.\<close>

definition parse_decimal :: "string \<Rightarrow> rat option" where
  "parse_decimal s =
     (let ip = takeWhile is_digit s;
          r1 = dropWhile is_digit s;
          fp = (case r1 of [] \<Rightarrow> [] | c # t \<Rightarrow> if c = CHR ''.'' then takeWhile is_digit t else []);
          r2 = (case r1 of [] \<Rightarrow> [] | c # t \<Rightarrow> if c = CHR ''.'' then dropWhile is_digit t else r1);
          m = rat_of_int (digits_val (ip @ fp)) / 10 ^ length fp
      in if ip = [] \<and> fp = [] then None
         else case r2 of
           [] \<Rightarrow> Some m
         | e # r3 \<Rightarrow>
             if e = CHR ''e'' \<or> e = CHR ''E'' then
               (case parse_sign r3 of
                  (neg, ds) \<Rightarrow>
                    if ds \<noteq> [] \<and> list_all is_digit ds
                    then Some (if neg then m / 10 ^ nat (digits_val ds)
                               else m * 10 ^ nat (digits_val ds))
                    else None)
             else None)"

definition lower_ascii :: "char \<Rightarrow> char" where
  "lower_ascii c =
     (let n = (of_char c :: nat) in if 65 \<le> n \<and> n \<le> 90 then char_of (n + 32) else c)"

definition parse_abs :: "string \<Rightarrow> pyfloat option" where
  "parse_abs s =
     (let l = map lower_ascii s
      in if l = ''inf'' \<or> l = ''infinity'' then Some FPosInf
         else if l = ''nan'' then Some FNaN
         else map_option FNum (parse_decimal s))"

definition py_float :: "string \<Rightarrow> exn + pyfloat" where
  "py_float s =
     (case strip_underscores (CHR 0x00) (float_strip s) of
        None \<Rightarrow> Inl ValueError
      | Some u \<Rightarrow>
          (case parse_sign u of
             (neg, r) \<Rightarrow>
               (case parse_abs r of
                  None \<Rightarrow> Inl ValueError
                | Some v \<Rightarrow> Inr (if neg then fneg v else v))))"

section \<open>Scalar cleaners\<close>

text \<open>
  \<open>clean_currency\<close>: a string is stripped, its commas removed; the empty string and a
  single dash are 0.0; otherwise \<open>float\<close> is tried and \<open>ValueError\<close> caught. Anything
  that is not a string is returned as it is.
\<close>

definition clean_currency :: "pyval \<Rightarrow> exn + pyval" where
  "clean_currency x =
     (case x of
        VStr s \<Rightarrow>
          (let clean_str = remove_char (CHR '','') (py_strip s)
           in if clean_str = ''-'' \<or> clean_str = [] then Inr (VNum (FNum 0))
              else (case py_float clean_str of
                      Inr v \<Rightarrow> Inr (VNum v)
                    | Inl ValueError \<Rightarrow> Inr (VNum (FNum 0))
                    | Inl e \<Rightarrow> Inl e))
      | _ \<Rightarrow> Inr x)"

text \<open>
  \<open>clean_money_string\<close>: the unit letter is looked for anywhere in the text, in the
  order B, M, K, T of the \<open>if\<close>/\<open>elif\<close> chain, and every occurrence of the letter found
  is removed before \<open>float\<close> is tried.
\<close>

definition clean_money_string :: "pyval \<Rightarrow> exn + pyval" where
  "clean_money_string x =
     (case x of
        VStr str \<Rightarrow>
          (let s = remove_char (CHR '','') (remove_char (CHR ''$'') (py_strip str));
               multiplier =
                 (if CHR ''B'' \<in> set s then FNum 1000000000
                  else if CHR ''M'' \<in> set s then FNum 1000000
                  else if CHR ''K'' \<in> set s then FNum 1000
                  else if CHR ''T'' \<in> set s then FNum 1000000000000
                  else FNum 1);
               s' =
                 (if CHR ''B'' \<in> set s then remove_char (CHR ''B'') s
                  else if CHR ''M'' \<in> set s then remove_char (CHR ''M'') s
                  else if CHR ''K'' \<in> set s then remove_char (CHR ''K'') s
                  else if CHR ''T'' \<in> set s then remove_char (CHR ''T'') s
                  else s)
           in (case py_float s' of
                 Inr v \<Rightarrow> Inr (VNum (fmul v multiplier))
               | Inl ValueError \<Rightarrow> Inr (VNum (FNum 0))
               | Inl e \<Rightarrow> Inl e))
      | _ \<Rightarrow> Inr x)"

text \<open>
  The abbreviated-currency cleaner as the specification words it, with the precedence of
  the unit letters as a parameter: the first letter of the list that occurs in the text
  is the unit, its occurrences are removed, the rest is parsed and scaled; without a unit
  the scale is 1.0, and a text that does not parse gives 0.0.
\<close>

fun detect_unit :: "(char \<times> rat) list \<Rightarrow> string \<Rightarrow> (char \<times> rat) option" where
  "detect_unit [] s = None"
| "detect_unit ((c, k) # us) s = (if c \<in> set s then Some (c, k) else detect_unit us s)"

definition clean_abbreviated_currency :: "(char \<times> rat) list \<Rightarrow> pyval \<Rightarrow> exn + pyval" where
  "clean_abbreviated_currency units x =
     (case x of
        VStr str \<Rightarrow>
          (let s = remove_char (CHR '','') (remove_char (CHR ''$'') (py_strip str))
           in case detect_unit units s of
                None \<Rightarrow>
                  Inr (VNum (case py_float s of Inr v \<Rightarrow> fmul v (FNum 1) | Inl _ \<Rightarrow> FNum 0))
              | Some (c, k) \<Rightarrow>
                  Inr (VNum (case py_float (remove_char c s) of
                               Inr v \<Rightarrow> fmul v (FNum k) | Inl _ \<Rightarrow> FNum 0)))
      | _ \<Rightarrow> Inr x)"

text \<open>The precedence the specification asks for: T, B, M, K.\<close>

definition spec_precedence :: "(char \<times> rat) list" where
  "spec_precedence =
     [(CHR ''T'', 1000000000000), (CHR ''B'', 1000000000), (CHR ''M'', 1000000),
      (CHR ''K'', 1000)]"

text \<open>The precedence of the \<open>if\<close>/\<open>elif\<close> chain in \<open>clean_money_string\<close>: B, M, K, T.\<close>

definition code_precedence :: "(char \<times> rat) list" where
  "code_precedence =
     [(CHR ''B'', 1000000000), (CHR ''M'', 1000000), (CHR ''K'', 1000),
      (CHR ''T'', 1000000000000)]"

subsection \<open>Employee counts of the SaaS loader\<close>

text \<open>
  The \<open>lambda\<close> of \<open>load_saas_data\<close>: the first dot is removed, and when what is left
  is all digits, \<open>float\<close> is applied to it (to the text without the dot); otherwise
  the result is 0. \<open>float\<close> stands outside any \<open>try\<close>.
\<close>

definition employee_count :: "string \<Rightarrow> exn + pyval" where
  "employee_count x =
     (if py_isdigit (remove_first (CHR ''.'') x)
      then (case py_float (remove_first (CHR ''.'') x) of
              Inr v \<Rightarrow> Inr (VNum v)
            | Inl e \<Rightarrow> Inl e)
      else Inr (VNum (FNum 0)))"

text \<open>\<open>.str.replace(',', '').apply(lambda ...)\<close> on one text cell.\<close>

definition clean_employees :: "string \<Rightarrow> exn + pyval" where
  "clean_employees s = employee_count (remove_char (CHR '','') s)"

section \<open>Tables\<close>

text \<open>
  A pandas \<open>DataFrame\<close> is modelled by its row labels, its columns in order (each a
  name and the list of its cells) and the names of the columns whose dtype is a datetime
  with a time zone. \<open>read_csv\<close> labels the rows \<open>0..n-1\<close>, unless the rows of the file
  have one field more than the header: then the first field of each row is its label,
  and a label can occur on several rows. Text columns have dtype \<open>object\<close> (pandas
  before 3.0): their cells are strings or NaN. \<open>pd.DataFrame()\<close> has no rows and no
  columns.
\<close>

type_synonym column = "pyval list"

record frame =
  row_labels :: "pyval list"
  cols :: "(string \<times> column) list"
  tz_cols :: "string list"

datatype encoding = DefaultEncoding | Utf8 | Latin1

text \<open>
  What the code calls in pandas and cannot be written out here is a parameter: reading
  a file, \<open>str\<close> of a finite float and of a timestamp, the date parser behind
  \<open>pd.to_datetime(column, errors='coerce')\<close> (it sees the whole column, since the
  format is guessed from it, gives no timestamp where pandas gives NaT, and says
  whether the column comes out with a time zone; a column whose values have different
  time zones is not modelled), \<open>pd.to_numeric(errors='coerce')\<close> on one cell, the
  calendar year of a timestamp, and \<open>value_counts().nlargest(n).index\<close>.
\<close>

record pandas =
  read_csv :: "string \<Rightarrow> encoding \<Rightarrow> exn + frame"
  float_repr :: "rat \<Rightarrow> string"
  time_repr :: "int \<Rightarrow> string"
  parse_date :: "column \<Rightarrow> pyval \<Rightarrow> int option"
  tz_aware :: "column \<Rightarrow> bool"
  to_numeric :: "pyval \<Rightarrow> pyfloat"
  year_of :: "int \<Rightarrow> int"
  top_values :: "nat \<Rightarrow> string list \<Rightarrow> string list"

definition empty_frame :: frame where
  "empty_frame = \<lparr> row_labels = [], cols = [], tz_cols = [] \<rparr>"

text \<open>The labels \<open>0..n-1\<close>.\<close>

definition default_labels :: "nat \<Rightarrow> pyval list" where
  "default_labels n = map (\<lambda>i. VNum (FNum (rat_of_nat i))) [0..<n]"

text \<open>
  The table \<open>read_csv\<close> makes of a file whose rows have as many fields as the header:
  the given columns, the default labels, no datetime column.
\<close>

definition csv_frame :: "(string \<times> column) list \<Rightarrow> frame" where
  "csv_frame cs =
     \<lparr> row_labels = default_labels (case cs of [] \<Rightarrow> 0 | nc # _ \<Rightarrow> length (snd nc)),
       cols = cs, tz_cols = [] \<rparr>"

definition nrows :: "frame \<Rightarrow> nat" where
  "nrows df = length (row_labels df)"

text \<open>\<open>name in df.columns\<close>\<close>

definition has_col :: "frame \<Rightarrow> string \<Rightarrow> bool" where
  "has_col df name = (map_of (cols df) name \<noteq> None)"

text \<open>\<open>df[name]\<close>: \<open>KeyError\<close> when there is no such column.\<close>

definition get_col :: "frame \<Rightarrow> string \<Rightarrow> exn + column" where
  "get_col df name =
     (case map_of (cols df) name of None \<Rightarrow> Inl (KeyError name) | Some c \<Rightarrow> Inr c)"

text \<open>\<open>df[name] = column\<close>: replaces the column, or appends it as the last one.\<close>

definition set_col :: "frame \<Rightarrow> string \<Rightarrow> column \<Rightarrow> frame" where
  "set_col df name c = df\<lparr>cols := AList.update name c (cols df)\<rparr>"

text \<open>
  A well-formed table: the column names are distinct and every column has one cell for
  each row. \<open>read_csv\<close> gives such tables; the theorems about \<open>load_data\<close> that need
  it ask that the names are still distinct after stripping, since pandas hands out a
  table, not a column, for a name that occurs twice.
\<close>

definition wf_frame :: "frame \<Rightarrow> bool" where
  "wf_frame df =
     (distinct (map fst (cols df)) \<and> list_all (\<lambda>nc. length (snd nc) = nrows df) (cols df))"

definition is_str :: "pyval \<Rightarrow> bool" where
  "is_str v = (case v of VStr _ \<Rightarrow> True | _ \<Rightarrow> False)"

definition is_num :: "pyval \<Rightarrow> bool" where
  "is_num v = (case v of VNum _ \<Rightarrow> True | _ \<Rightarrow> False)"

text \<open>\<open>pd.isna\<close> on one cell.\<close>

definition isna :: "pyval \<Rightarrow> bool" where
  "isna v = (v = VNum FNaN \<or> v = VNaT)"

text \<open>\<open>column.dtype == object\<close>: the column holds text.\<close>

definition is_object :: "column \<Rightarrow> bool" where
  "is_object c = list_ex is_str c"

text \<open>\<open>astype(str)\<close> on one cell: a missing value becomes the text \<open>nan\<close>.\<close>

definition astype_str :: "pandas \<Rightarrow> pyval \<Rightarrow> string" where
  "astype_str E v =
     (case v of
        VStr s \<Rightarrow> s
      | VNum FNaN \<Rightarrow> ''nan''
      | VNum FPosInf \<Rightarrow> ''inf''
      | VNum FNegInf \<Rightarrow> ''-inf''
      | VNum (FNum r) \<Rightarrow> float_repr E r
      | VTime t \<Rightarrow> time_repr E t
      | VNaT \<Rightarrow> ''NaT'')"

text \<open>\<open>column.apply(f)\<close> for an \<open>f\<close> that may raise: the first exception leaves.\<close>

fun try_map :: "('a \<Rightarrow> exn + 'b) \<Rightarrow> 'a list \<Rightarrow> exn + 'b list" where
  "try_map f [] = Inr []"
| "try_map f (x # xs) =
     (case f x of
        Inl e \<Rightarrow> Inl e
      | Inr y \<Rightarrow> (case try_map f xs of Inl e \<Rightarrow> Inl e | Inr ys \<Rightarrow> Inr (y # ys)))"

section \<open>The primary loader \<open>load_data\<close>\<close>

text \<open>
  \<open>pd.read_csv(filepath, encoding='ISO-8859-1')\<close>, and on \<open>UnicodeDecodeError\<close>
  the default encoding; any other exception leaves \<open>load_data\<close>.
\<close>

definition read_primary :: "pandas \<Rightarrow> string \<Rightarrow> exn + frame" where
  "read_primary E filepath =
     (case read_csv E filepath Latin1 of
        Inl UnicodeDecodeError \<Rightarrow> read_csv E filepath DefaultEncoding
      | r \<Rightarrow> r)"

text \<open>Step 1: \<open>df.columns = df.columns.str.strip()\<close>\<close>

definition strip_columns :: "frame \<Rightarrow> frame" where
  "strip_columns df = df\<lparr>cols := map (\<lambda>nc. (py_strip (fst nc), snd nc)) (cols df)\<rparr>"

text \<open>Step 2: a textual funding column goes through \<open>astype(str).apply(clean_currency)\<close>.\<close>

definition clean_funding :: "pandas \<Rightarrow> frame \<Rightarrow> exn + frame" where
  "clean_funding E df =
     (case map_of (cols df) ''funding_total_usd'' of
        None \<Rightarrow> Inr df
      | Some c \<Rightarrow>
          if is_object c
          then (case try_map (\<lambda>v. clean_currency (VStr (astype_str E v))) c of
                  Inl e \<Rightarrow> Inl e
                | Inr c' \<Rightarrow> Inr (set_col df ''funding_total_usd'' c'))
          else Inr df)"

text \<open>
  Step 3: the date columns that are present are parsed. What does not parse, or lies
  outside the range of a 64-bit count of nanoseconds, is NaT. The column is recorded as
  one with a time zone when the parser says so.
\<close>

definition ts_min :: int where
  "ts_min = - 9223372036854775807"

definition ts_max :: int where
  "ts_max = 9223372036854775807"

definition to_datetime :: "pandas \<Rightarrow> column \<Rightarrow> column" where
  "to_datetime E c =
     map (\<lambda>v. case parse_date E c v of
                 Some t \<Rightarrow> if ts_min \<le> t \<and> t \<le> ts_max then VTime t else VNaT
               | None \<Rightarrow> VNaT) c"

definition set_datetime_col :: "pandas \<Rightarrow> string \<Rightarrow> column \<Rightarrow> frame \<Rightarrow> frame" where
  "set_datetime_col E col c df =
     (set_col df col (to_datetime E c))
       \<lparr>tz_cols := (if tz_aware E c then [col] else []) @ removeAll col (tz_cols df)\<rparr>"

definition date_cols :: "string list" where
  "date_cols = [''founded_at'', ''first_funding_at'', ''last_funding_at'']"

definition parse_date_col :: "pandas \<Rightarrow> string \<Rightarrow> frame \<Rightarrow> frame" where
  "parse_date_col E col df =
     (case map_of (cols df) col of None \<Rightarrow> df | Some c \<Rightarrow> set_datetime_col E col c df)"

definition parse_dates :: "pandas \<Rightarrow> frame \<Rightarrow> frame" where
  "parse_dates E df = fold (parse_date_col E) date_cols df"

text \<open>Step 4: \<open>founded_year\<close>, from its own column or else from the founding date.\<close>

definition dt_year :: "pandas \<Rightarrow> pyval \<Rightarrow> pyval" where
  "dt_year E v = (case v of VTime t \<Rightarrow> VNum (FNum (rat_of_int (year_of E t))) | _ \<Rightarrow> VNum FNaN)"

definition founded_year_step :: "pandas \<Rightarrow> frame \<Rightarrow> frame" where
  "founded_year_step E df =
     (case map_of (cols df) ''founded_year'' of
        Some c \<Rightarrow> set_col df ''founded_year'' (map (\<lambda>v. VNum (to_numeric E v)) c)
      | None \<Rightarrow>
          (case map_of (cols df) ''founded_at'' of
             Some c \<Rightarrow> set_col df ''founded_year'' (map (dt_year E) c)
           | None \<Rightarrow> df))"

text \<open>Steps 5 and 6: status is stripped and lower-cased, market is stripped.\<close>

definition normalize_status :: "pandas \<Rightarrow> frame \<Rightarrow> frame" where
  "normalize_status E df =
     (case map_of (cols df) ''status'' of
        None \<Rightarrow> df
      | Some c \<Rightarrow> set_col df ''status'' (map (\<lambda>v. VStr (py_lower (py_strip (astype_str E v)))) c))"

definition normalize_market :: "pandas \<Rightarrow> frame \<Rightarrow> frame" where
  "normalize_market E df =
     (case map_of (cols df) ''market'' of
        None \<Rightarrow> df
      | Some c \<Rightarrow> set_col df ''market'' (map (\<lambda>v. VStr (py_strip (astype_str E v))) c))"

text \<open>
  Step 7. The new column starts as NaN everywhere (line 87). The three columns are read
  without a test for their presence (lines 88 and 90). \<open>exits\<close> are the rows whose
  status is \<open>acquired\<close> or \<open>ipo\<close>, each with its row label.

  Line 91 subtracts the founding dates from the last-funding dates of the exits for
  which both are known. The subtraction raises \<open>TypeError\<close> when one of the two columns
  has a time zone and the other has none, whatever the rows; it works on 64-bit counts
  of nanoseconds and raises \<open>OverflowError\<close> when a difference does not fit. The value
  of a row is the whole days of the difference (\<open>.dt.days\<close> rounds down) over 365.0.
  Line 93 sets a value below 0.5 back to NaN.

  Line 94 writes the values into the table by row label: \<open>df.loc[exits.index, ...] =
  exits[...]\<close>. Every row of the table whose label is the label of an exit gets that
  exit's value, an exit or not; when two exits have the same label the assignment
  raises \<open>ValueError\<close> (pandas cannot reindex on duplicate labels).
\<close>

definition ns_per_day :: int where
  "ns_per_day = 86400000000000"

definition exit_statuses :: "pyval list" where
  "exit_statuses = [VStr ''acquired'', VStr ''ipo'']"

definition duration_years :: "pyval \<Rightarrow> pyval \<Rightarrow> exn + pyval" where
  "duration_years last_funding founded =
     (if \<not> isna last_funding \<and> \<not> isna founded
      then (case (last_funding, founded) of
              (VTime a, VTime b) \<Rightarrow>
                if a - b < - 9223372036854775808 \<or> 9223372036854775807 < a - b
                then Inl OverflowError
                else Inr (VNum (FNum (rat_of_int ((a - b) div ns_per_day) / 365)))
            | _ \<Rightarrow> Inr (VNum FNaN))
      else Inr (VNum FNaN))"

definition drop_short :: "pyval \<Rightarrow> pyval" where
  "drop_short y = (case y of VNum (FNum r) \<Rightarrow> if r < 1 / 2 then VNum FNaN else y | _ \<Rightarrow> y)"

text \<open>The label and the value of one row of \<open>exits\<close>.\<close>

definition exit_row :: "pyval \<times> pyval \<times> pyval \<times> pyval \<Rightarrow> exn + pyval \<times> pyval" where
  "exit_row r =
     (case duration_years (fst (snd (snd r))) (snd (snd (snd r))) of
        Inl e \<Rightarrow> Inl e
      | Inr y \<Rightarrow> Inr (fst r, drop_short y))"

text \<open>Line 94, for exits with distinct labels.\<close>

definition write_by_label :: "(pyval \<times> pyval) list \<Rightarrow> pyval list \<Rightarrow> column" where
  "write_by_label exit_years labels =
     map (\<lambda>l. case map_of exit_years l of Some y \<Rightarrow> y | None \<Rightarrow> VNum FNaN) labels"

definition years_to_exit_step :: "frame \<Rightarrow> exn + frame" where
  "years_to_exit_step df0 =
     (let df = set_col df0 ''years_to_exit'' (replicate (nrows df0) (VNum FNaN))
      in case get_col df ''status'' of
           Inl e \<Rightarrow> Inl e
         | Inr status \<Rightarrow>
      (case get_col df ''last_funding_at'' of
           Inl e \<Rightarrow> Inl e
         | Inr last_funding \<Rightarrow>
      (case get_col df ''founded_at'' of
           Inl e \<Rightarrow> Inl e
         | Inr founded \<Rightarrow>
             if (''last_funding_at'' \<in> set (tz_cols df)) \<noteq> (''founded_at'' \<in> set (tz_cols df))
             then Inl TypeError
             else
               (case try_map exit_row
                       (filter (\<lambda>r. fst (snd r) \<in> set exit_statuses)
                          (zip (row_labels df) (zip status (zip last_funding founded)))) of
                  Inl e \<Rightarrow> Inl e
                | Inr exit_years \<Rightarrow>
                    if \<not> distinct (map fst exit_years) then Inl ValueError
                    else Inr (set_col df ''years_to_exit''
                                (write_by_label exit_years (row_labels df)))))))"

text \<open>Steps 3 to 6 of \<open>load_data\<close>.\<close>

definition prepared :: "pandas \<Rightarrow> frame \<Rightarrow> frame" where
  "prepared E df2 =
     normalize_market E (normalize_status E (founded_year_step E (parse_dates E df2)))"

definition load_data :: "pandas \<Rightarrow> string \<Rightarrow> exn + frame" where
  "load_data E filepath =
     (case read_primary E filepath of
        Inl e \<Rightarrow> Inl e
      | Inr df \<Rightarrow>
          (case clean_funding E (strip_columns df) of
             Inl e \<Rightarrow> Inl e
           | Inr df2 \<Rightarrow> years_to_exit_step (prepared E df2)))"

text \<open>Every column has \<open>n\<close> cells.\<close>

definition all_len :: "nat \<Rightarrow> frame \<Rightarrow> bool" where
  "all_len n df = list_all (\<lambda>nc. length (snd nc) = n) (cols df)"

text \<open>
  The value step 7 leaves in a row whose label no other row has: that of the row's
  dates when its status is an exit status, NaN otherwise.
\<close>

definition exit_value :: "pyval \<Rightarrow> pyval \<Rightarrow> pyval \<Rightarrow> pyval" where
  "exit_value st lf fa =
     (if st \<in> set exit_statuses
      then (case duration_years lf fa of Inr y \<Rightarrow> drop_short y | Inl e \<Rightarrow> VNum FNaN)
      else VNum FNaN)"

section \<open>Sector metrics\<close>

text \<open>Float addition; the two infinities add to NaN.\<close>

fun fadd :: "pyfloat \<Rightarrow> pyfloat \<Rightarrow> pyfloat" where
  "fadd (FNum a) (FNum b) = FNum (a + b)"
| "fadd FNaN _ = FNaN"
| "fadd _ FNaN = FNaN"
| "fadd FPosInf FNegInf = FNaN"
| "fadd FNegInf FPosInf = FNaN"
| "fadd FPosInf _ = FPosInf"
| "fadd _ FPosInf = FPosInf"
| "fadd FNegInf _ = FNegInf"
| "fadd _ FNegInf = FNegInf"

text \<open>A float over a count, as pandas divides a float column by an integer column.\<close>

fun fdiv_count :: "pyfloat \<Rightarrow> nat \<Rightarrow> pyfloat" where
  "fdiv_count (FNum a) n =
     (if n = 0 then (if 0 < a then FPosInf else if a < 0 then FNegInf else FNaN)
      else FNum (a / rat_of_nat n))"
| "fdiv_count x n = x"

text \<open>
  \<open>sum\<close> of the funding cells of one group. The missing cells are skipped and the others
  are added with Python's \<open>+\<close>, from the first one on: numbers add, texts are
  concatenated, a number and a text raise \<open>TypeError\<close>. A group with no cell left sums
  to 0, and a column of timestamps cannot be summed.
\<close>

fun add_cells :: "pyval \<Rightarrow> pyval \<Rightarrow> exn + pyval" where
  "add_cells (VNum a) (VNum b) = Inr (VNum (fadd a b))"
| "add_cells (VStr a) (VStr b) = Inr (VStr (a @ b))"
| "add_cells _ _ = Inl TypeError"

fun sum_from :: "pyval \<Rightarrow> pyval list \<Rightarrow> exn + pyval" where
  "sum_from acc [] = Inr acc"
| "sum_from acc (x # xs) =
     (case add_cells acc x of Inl e \<Rightarrow> Inl e | Inr acc' \<Rightarrow> sum_from acc' xs)"

definition is_time :: "pyval \<Rightarrow> bool" where
  "is_time v = (case v of VTime _ \<Rightarrow> True | VNaT \<Rightarrow> True | _ \<Rightarrow> False)"

definition group_sum :: "column \<Rightarrow> exn + pyval" where
  "group_sum c =
     (if list_ex is_time c then Inl TypeError
      else (case filter (\<lambda>v. \<not> isna v) c of
              [] \<Rightarrow> Inr (VNum (FNum 0))
            | x # xs \<Rightarrow> sum_from x xs))"

text \<open>
  The numbers of the years of one group; \<open>median\<close> raises \<open>TypeError\<close> for a cell that
  is not a number.
\<close>

definition numeric_cells :: "column \<Rightarrow> exn + pyfloat list" where
  "numeric_cells c = try_map (\<lambda>v. case v of VNum x \<Rightarrow> Inr x | _ \<Rightarrow> Inl TypeError) c"

text \<open>\<open>median\<close> of a group skips NaN.\<close>

fun asc_key :: "pyfloat \<Rightarrow> nat \<times> rat" where
  "asc_key FNegInf = (0, 0)"
| "asc_key (FNum r) = (1, r)"
| "asc_key FPosInf = (2, 0)"
| "asc_key FNaN = (3, 0)"

definition median_skipna :: "pyfloat list \<Rightarrow> pyfloat" where
  "median_skipna xs =
     (let ys = sort_key asc_key (filter (\<lambda>x. x \<noteq> FNaN) xs); n = length ys
      in if n = 0 then FNaN
         else if odd n then ys ! (n div 2)
         else fdiv_count (fadd (ys ! (n div 2 - 1)) (ys ! (n div 2))) 2)"

text \<open>The key of \<open>sort_values(ascending=False)\<close>: larger values first, NaN last.\<close>

fun desc_key :: "pyfloat \<Rightarrow> nat \<times> rat" where
  "desc_key FPosInf = (0, 0)"
| "desc_key (FNum r) = (1, - r)"
| "desc_key FNegInf = (2, 0)"
| "desc_key FNaN = (3, 0)"

text \<open>
  The aggregates of one sector (line 102), and the row of the result with the two
  derived rates (lines 110 and 111).
\<close>

record sector_agg =
  agg_market :: pyval
  agg_total :: pyval
  agg_deals :: nat
  agg_exits :: nat
  agg_years :: pyfloat

record sector_row =
  market :: pyval
  total_funding_usd :: pyfloat
  deal_count :: nat
  exit_count :: nat
  avg_years_to_exit :: pyfloat
  success_rate :: rat
  avg_deal_size :: pyfloat

text \<open>
  \<open>groupby\<close> takes the distinct keys that are not missing in sorted order: numbers
  before timestamps before texts, texts by their code points.
\<close>

definition group_key :: "pyval \<Rightarrow> nat \<times> (nat \<times> rat) \<times> string" where
  "group_key k =
     (case k of
        VNum x \<Rightarrow> (0, asc_key x, [])
      | VTime t \<Rightarrow> (1, (0, rat_of_int t), [])
      | VStr s \<Rightarrow> (2, (0, 0), s)
      | VNaT \<Rightarrow> (3, (0, 0), []))"

definition group_keys :: "column \<Rightarrow> pyval list" where
  "group_keys mk = sort_key group_key (remdups (filter (\<lambda>k. \<not> isna k) mk))"

text \<open>
  The named aggregation over the rows of one sector: the funding is summed,
  \<open>deal_count\<close> is \<open>count\<close> of the name column (the names that are not missing),
  \<open>exit_count\<close> counts the rows whose status is \<open>acquired\<close> or \<open>ipo\<close>, and the years
  to exit give their median.
\<close>

definition aggregate ::
  "(pyval \<times> pyval \<times> pyval \<times> pyval \<times> pyval) list \<Rightarrow> pyval \<Rightarrow> exn + sector_agg" where
  "aggregate rows k =
     (let grp = filter (\<lambda>r. fst r = k) rows
      in case group_sum (map (\<lambda>r. fst (snd r)) grp) of
           Inl e \<Rightarrow> Inl e
         | Inr funding \<Rightarrow>
             (case numeric_cells (map (\<lambda>r. snd (snd (snd (snd r)))) grp) of
                Inl e \<Rightarrow> Inl e
              | Inr years \<Rightarrow>
                  Inr \<lparr> agg_market = k,
                        agg_total = funding,
                        agg_deals = length (filter (\<lambda>r. \<not> isna (fst (snd (snd r)))) grp),
                        agg_exits =
                          length (filter (\<lambda>r. fst (snd (snd (snd r))) \<in> set exit_statuses) grp),
                        agg_years = median_skipna years \<rparr>))"

text \<open>
  Lines 110 and 111 on one sector that is kept: the division of the total by the deal
  count raises \<open>TypeError\<close> when the total is a text.
\<close>

definition derive_rates :: "sector_agg \<Rightarrow> exn + sector_row" where
  "derive_rates m =
     (case agg_total m of
        VNum x \<Rightarrow>
          Inr \<lparr> market = agg_market m,
                total_funding_usd = x,
                deal_count = agg_deals m,
                exit_count = agg_exits m,
                avg_years_to_exit = agg_years m,
                success_rate = rat_of_nat (agg_exits m) / rat_of_nat (agg_deals m) * 100,
                avg_deal_size = fdiv_count x (agg_deals m) \<rparr>
      | _ \<Rightarrow> Inl TypeError)"

text \<open>
  \<open>get_sector_metrics\<close>: the rows with a missing market are in no group; sectors with at
  most 5 deals are dropped before the rates are derived; the result is sorted by total
  funding, largest first. The sort is stable here; pandas leaves the order among equal
  totals open.
\<close>

definition get_sector_metrics :: "frame \<Rightarrow> exn + sector_row list" where
  "get_sector_metrics df =
     (case get_col df ''market'' of
        Inl e \<Rightarrow> Inl e
      | Inr mk \<Rightarrow>
     (case get_col df ''funding_total_usd'' of
        Inl e \<Rightarrow> Inl e
      | Inr fu \<Rightarrow>
     (case get_col df ''name'' of
        Inl e \<Rightarrow> Inl e
      | Inr nm \<Rightarrow>
     (case get_col df ''status'' of
        Inl e \<Rightarrow> Inl e
      | Inr st \<Rightarrow>
     (case get_col df ''years_to_exit'' of
        Inl e \<Rightarrow> Inl e
      | Inr ye \<Rightarrow>
          (case try_map (aggregate (zip mk (zip fu (zip nm (zip st ye))))) (group_keys mk) of
             Inl e \<Rightarrow> Inl e
           | Inr metrics \<Rightarrow>
               (case try_map derive_rates (filter (\<lambda>m. 5 < agg_deals m) metrics) of
                  Inl e \<Rightarrow> Inl e
                | Inr rows \<Rightarrow>
                    Inr (sort_key (\<lambda>r. desc_key (total_funding_usd r)) rows))))))))"

section \<open>The optional loaders\<close>

text \<open>\<open>float - float\<close> on two cells; \<open>TypeError\<close> when one is not a number.\<close>

definition cell_sub :: "pyval \<Rightarrow> pyval \<Rightarrow> exn + pyval" where
  "cell_sub a b =
     (case (a, b) of
        (VNum x, VNum y) \<Rightarrow> Inr (VNum (fadd x (fneg y)))
      | _ \<Rightarrow> Inl TypeError)"

fun try_map2 :: "('a \<Rightarrow> 'b \<Rightarrow> exn + 'c) \<Rightarrow> 'a list \<Rightarrow> 'b list \<Rightarrow> exn + 'c list" where
  "try_map2 f (x # xs) (y # ys) =
     (case f x y of
        Inl e \<Rightarrow> Inl e
      | Inr z \<Rightarrow> (case try_map2 f xs ys of Inl e \<Rightarrow> Inl e | Inr zs \<Rightarrow> Inr (z # zs)))"
| "try_map2 f _ _ = Inr []"

text \<open>\<open>df.empty\<close>\<close>

definition is_empty :: "frame \<Rightarrow> bool" where
  "is_empty df = (cols df = [] \<or> nrows df = 0)"

text \<open>
  The part of \<open>load_unicorn_data\<close> after the two reads. The founding years come from
  the 2021 table by the company name (the later row wins where a name repeats); a name
  that is not there gives NaN.
\<close>

definition valuation_step :: "pandas \<Rightarrow> frame \<Rightarrow> frame" where
  "valuation_step E df =
     (case map_of (cols df) ''Last Valuation (Billion $)'' of
        None \<Rightarrow> df
      | Some c \<Rightarrow>
          set_col df ''Valuation_USD''
            (map (\<lambda>v. VNum (fmul (to_numeric E v) (FNum 1000000000))) c))"

definition date_joined_step :: "pandas \<Rightarrow> frame \<Rightarrow> frame" where
  "date_joined_step E df =
     (case map_of (cols df) ''Date Joined'' of
        None \<Rightarrow> df
      | Some c \<Rightarrow>
          set_col (set_datetime_col E ''Date Joined'' c df) ''Year Joined''
            (map (dt_year E) (to_datetime E c)))"

definition years_to_unicorn_step :: "frame \<Rightarrow> frame \<Rightarrow> exn + frame" where
  "years_to_unicorn_step df_2021 df =
     (if \<not> is_empty df_2021 \<and> has_col df_2021 ''Company'' \<and> has_col df_2021 ''Year Founded''
      then
        (case get_col df_2021 ''Company'' of Inl e \<Rightarrow> Inl e | Inr names \<Rightarrow>
        (case get_col df_2021 ''Year Founded'' of Inl e \<Rightarrow> Inl e | Inr years \<Rightarrow>
        (case get_col df ''Company'' of Inl e \<Rightarrow> Inl e | Inr company \<Rightarrow>
           (let founded_map = map_of (rev (zip names years));
                df1 = set_col df ''Year Founded''
                        (map (\<lambda>k. case founded_map k of Some y \<Rightarrow> y | None \<Rightarrow> VNum FNaN) company)
            in case get_col df1 ''Year Joined'' of Inl e \<Rightarrow> Inl e | Inr joined \<Rightarrow>
              (case get_col df1 ''Year Founded'' of Inl e \<Rightarrow> Inl e | Inr founded \<Rightarrow>
                 (case try_map2 cell_sub joined founded of
                    Inl e \<Rightarrow> Inl e
                  | Inr d \<Rightarrow> Inr (set_col df1 ''Years_to_Unicorn'' d)))))))
      else Inr (set_col df ''Years_to_Unicorn'' (replicate (nrows df) (VNum FNaN))))"

definition investors_step :: "frame \<Rightarrow> frame" where
  "investors_step df =
     (case map_of (cols df) ''Investors'' of
        None \<Rightarrow> df
      | Some c \<Rightarrow> set_col df ''Select Investors'' c)"

definition load_unicorn_data :: "pandas \<Rightarrow> string \<Rightarrow> exn + frame" where
  "load_unicorn_data E filepath =
     (case read_csv E filepath DefaultEncoding of
        Inl e \<Rightarrow> Inr empty_frame
      | Inr df_2022 \<Rightarrow>
          (let df_2021 =
                 (case read_csv E ''Unicorn_Companies2021.csv'' DefaultEncoding of
                    Inl e \<Rightarrow> empty_frame
                  | Inr d \<Rightarrow> d)
           in case years_to_unicorn_step df_2021 (date_joined_step E (valuation_step E df_2022)) of
                Inl e \<Rightarrow> Inl e
              | Inr df \<Rightarrow> Inr (investors_step df)))"

text \<open>
  \<open>load_saas_data\<close>: the three money columns that are present get a \<open>_USD\<close> column
  through \<open>clean_money_string\<close> (on the cells as they are), and the employee column is
  cleaned as text.
\<close>

definition money_col :: "string \<Rightarrow> frame \<Rightarrow> exn + frame" where
  "money_col col df =
     (case map_of (cols df) col of
        None \<Rightarrow> Inr df
      | Some c \<Rightarrow>
          (case try_map clean_money_string c of
             Inl e \<Rightarrow> Inl e
           | Inr c' \<Rightarrow> Inr (set_col df (col @ ''_USD'') c')))"

definition employees_step :: "pandas \<Rightarrow> frame \<Rightarrow> exn + frame" where
  "employees_step E df =
     (case map_of (cols df) ''Employees'' of
        None \<Rightarrow> Inr df
      | Some c \<Rightarrow>
          (case try_map (\<lambda>v. clean_employees (astype_str E v)) c of
             Inl e \<Rightarrow> Inl e
           | Inr c' \<Rightarrow> Inr (set_col df ''Employees'' c')))"

definition load_saas_data :: "pandas \<Rightarrow> string \<Rightarrow> exn + frame" where
  "load_saas_data E filepath =
     (case read_csv E filepath DefaultEncoding of
        Inl e \<Rightarrow> Inr empty_frame
      | Inr df \<Rightarrow>
          (case money_col ''Total Funding'' df of Inl e \<Rightarrow> Inl e | Inr df1 \<Rightarrow>
          (case money_col ''ARR'' df1 of Inl e \<Rightarrow> Inl e | Inr df2 \<Rightarrow>
          (case money_col ''Valuation'' df2 of Inl e \<Rightarrow> Inl e | Inr df3 \<Rightarrow>
             employees_step E df3))))"

text \<open>\<open>load_investor_data\<close>: UTF-8 first, then ISO-8859-1, then the empty table.\<close>

definition load_investor_data :: "pandas \<Rightarrow> string \<Rightarrow> exn + frame" where
  "load_investor_data E filepath =
     (case read_csv E filepath Utf8 of
        Inr df \<Rightarrow> Inr df
      | Inl e \<Rightarrow>
          (case read_csv E filepath Latin1 of
             Inr df \<Rightarrow> Inr df
           | Inl e' \<Rightarrow> Inr empty_frame))"

section \<open>The success model\<close>

text \<open>
  A fitted \<open>LabelEncoder\<close> is its sorted list of distinct classes; \<open>transform\<close> gives
  the position of a class and raises \<open>ValueError\<close> for a label that was not seen.
\<close>

record label_encoder =
  classes :: "string list"

definition le_fit :: "string list \<Rightarrow> label_encoder" where
  "le_fit xs = \<lparr> classes = sort (remdups xs) \<rparr>"

fun index_of :: "'a \<Rightarrow> 'a list \<Rightarrow> nat" where
  "index_of x [] = 0"
| "index_of x (y # ys) = (if x = y then 0 else Suc (index_of x ys))"

definition le_transform :: "label_encoder \<Rightarrow> string \<Rightarrow> exn + nat" where
  "le_transform le x =
     (if x \<in> set (classes le) then Inr (index_of x (classes le)) else Inl ValueError)"

text \<open>
  The random forest is a parameter: fitting (which may raise, as it does on an empty
  training set) and the probability of the positive class for one feature row.
\<close>

record 'm sklearn =
  fit_forest :: "(pyval \<times> pyval \<times> nat \<times> nat) list \<Rightarrow> nat list \<Rightarrow> exn + 'm"
  predict_proba :: "'m \<Rightarrow> pyval \<times> pyval \<times> nat \<times> nat \<Rightarrow> exn + pyfloat"

text \<open>
  The two ``safe encodings'' of \<open>predict_success\<close>. A bare \<open>except\<close> catches whatever
  \<open>transform\<close> raises. The country falls back to 0 at once; the category is tried as
  \<open>Other\<close> first.
\<close>

definition country_code_enc :: "label_encoder \<Rightarrow> string \<Rightarrow> nat" where
  "country_code_enc le_country country =
     (case le_transform le_country country of Inr c \<Rightarrow> c | Inl e \<Rightarrow> 0)"

definition category_enc :: "label_encoder \<Rightarrow> string \<Rightarrow> nat" where
  "category_enc le_category category =
     (case le_transform le_category category of
        Inr c \<Rightarrow> c
      | Inl e \<Rightarrow> (case le_transform le_category ''Other'' of Inr c \<Rightarrow> c | Inl e' \<Rightarrow> 0))"

definition predict_success ::
  "'m sklearn \<Rightarrow> 'm \<Rightarrow> label_encoder \<times> label_encoder \<Rightarrow> pyval \<Rightarrow> pyval \<Rightarrow> string \<Rightarrow> string
     \<Rightarrow> exn + pyfloat" where
  "predict_success S model encoders funding rounds country category =
     predict_proba S model
       (funding, rounds, country_code_enc (fst encoders) country,
        category_enc (snd encoders) category)"

text \<open>
  The fallback policy as the specification words it, for any encoder: the literal value,
  else the literal \<open>Other\<close>, else code 0.
\<close>

definition encode_with_fallback :: "label_encoder \<Rightarrow> string \<Rightarrow> nat" where
  "encode_with_fallback le x =
     (if x \<in> set (classes le) then index_of x (classes le)
      else if ''Other'' \<in> set (classes le) then index_of ''Other'' (classes le)
      else 0)"

text \<open>
  Feature 1 of \<open>train_success_model\<close>: the \<open>lambda\<close> is applied after \<open>astype(str)\<close>,
  so what it tests with \<open>isinstance(x, str)\<close> is always a string.
\<close>

definition first_token :: "pyval \<Rightarrow> string" where
  "first_token x = (case x of VStr s \<Rightarrow> takeWhile (\<lambda>c. c \<noteq> CHR ''|'') s | _ \<Rightarrow> ''Other'')"

definition primary_category :: "pandas \<Rightarrow> pyval \<Rightarrow> string" where
  "primary_category E v = first_token (VStr (astype_str E v))"

text \<open>\<open>df[mask]\<close>: the rows where the mask holds.\<close>

definition keep_rows :: "bool list \<Rightarrow> 'a list \<Rightarrow> 'a list" where
  "keep_rows keep xs = map snd (filter fst (zip keep xs))"

definition filter_rows :: "bool list \<Rightarrow> frame \<Rightarrow> frame" where
  "filter_rows keep df =
     df\<lparr>row_labels := keep_rows keep (row_labels df),
        cols := map (\<lambda>nc. (fst nc, keep_rows keep (snd nc))) (cols df)\<rparr>"

definition valid_status :: "pyval list" where
  "valid_status = [VStr ''operating'', VStr ''acquired'', VStr ''closed'', VStr ''ipo'']"

definition is_success :: "pyval \<Rightarrow> nat" where
  "is_success x = (if x \<in> set exit_statuses then 1 else 0)"

text \<open>\<open>pd.to_numeric(column, errors='coerce').fillna(1)\<close>\<close>

definition rounds_step :: "pandas \<Rightarrow> frame \<Rightarrow> frame" where
  "rounds_step E df =
     (case map_of (cols df) ''funding_rounds'' of
        None \<Rightarrow> df
      | Some c \<Rightarrow>
          set_col df ''funding_rounds''
            (map (\<lambda>v. if to_numeric E v = FNaN then VNum (FNum 1) else VNum (to_numeric E v)) c))"

text \<open>
  The training rows after \<open>dropna\<close>: funding, rounds, country, primary category and
  label of every row in which none of them is missing.
\<close>

definition feature_rows ::
  "pandas \<Rightarrow> frame \<Rightarrow> exn + (pyval \<times> pyval \<times> pyval \<times> string \<times> nat) list" where
  "feature_rows E df =
     (case get_col df ''category_list'' of Inl e \<Rightarrow> Inl e | Inr cats \<Rightarrow>
     (case get_col df ''funding_total_usd'' of Inl e \<Rightarrow> Inl e | Inr fu \<Rightarrow>
     (case get_col df ''funding_rounds'' of Inl e \<Rightarrow> Inl e | Inr ro \<Rightarrow>
     (case get_col df ''country_code'' of Inl e \<Rightarrow> Inl e | Inr co \<Rightarrow>
     (case get_col df ''status'' of Inl e \<Rightarrow> Inl e | Inr st \<Rightarrow>
        Inr (filter (\<lambda>r. \<not> isna (fst r) \<and> \<not> isna (fst (snd r)) \<and> \<not> isna (fst (snd (snd r))))
               (zip fu (zip ro (zip co (zip (map (primary_category E) cats)
                                           (map is_success st)))))))))))"

definition train_success_model ::
  "pandas \<Rightarrow> 'm sklearn \<Rightarrow> string \<Rightarrow> exn + ('m option \<times> (label_encoder \<times> label_encoder) option)" where
  "train_success_model E S filepath =
     (case read_csv E filepath DefaultEncoding of
        Inl e \<Rightarrow> Inr (None, None)
      | Inr df0 \<Rightarrow>
     (case get_col df0 ''status'' of Inl e \<Rightarrow> Inl e | Inr st \<Rightarrow>
     (case clean_funding E (filter_rows (map (\<lambda>s. s \<in> set valid_status) st) df0) of
        Inl e \<Rightarrow> Inl e
      | Inr df1 \<Rightarrow>
     (case feature_rows E (rounds_step E df1) of Inl e \<Rightarrow> Inl e | Inr rows \<Rightarrow>
        (let le_country = le_fit (map (\<lambda>r. astype_str E (fst (snd (snd r)))) rows);
             cats = map (\<lambda>r. fst (snd (snd (snd r)))) rows;
             top_cats = top_values E 50 cats;
             reduced = map (\<lambda>x. if x \<in> set top_cats then x else ''Other'') cats;
             le_category = le_fit reduced;
             X = map (\<lambda>rc. (fst (fst rc), fst (snd (fst rc)),
                              index_of (astype_str E (fst (snd (snd (fst rc))))) (classes le_country),
                              index_of (snd rc) (classes le_category)))
                     (zip rows reduced);
             y = map (\<lambda>r. snd (snd (snd (snd r)))) rows
         in case fit_forest S X y of
              Inl e \<Rightarrow> Inl e
            | Inr model \<Rightarrow> Inr (Some model, Some (le_country, le_category)))))))"

section \<open>Example inputs\<close>

text \<open>
  A pandas for examples: the files are given as a function, dates are looked up in a
  small calendar (days since 1970-01-01) and have no time zone, numbers are read with
  \<open>float\<close>, and the parts no example depends on are constant.
\<close>

definition example_dates :: "(string \<times> int) list" where
  "example_dates =
     [(''2010-01-01'', 14610 * ns_per_day), (''2010-04-01'', 14700 * ns_per_day),
      (''2012-01-01'', 15340 * ns_per_day), (''1700-01-01'', - 98615 * ns_per_day),
      (''2200-01-01'', 84006 * ns_per_day)]"

definition example_pandas :: "(string \<Rightarrow> encoding \<Rightarrow> exn + frame) \<Rightarrow> pandas" where
  "example_pandas files =
     \<lparr> read_csv = files,
       float_repr = (\<lambda>r. ''0.0''),
       time_repr = (\<lambda>t. ''1970-01-01''),
       parse_date = (\<lambda>c v. case v of VStr s \<Rightarrow> map_of example_dates s | _ \<Rightarrow> None),
       tz_aware = (\<lambda>c. False),
       to_numeric = (\<lambda>v. case v of
                           VStr s \<Rightarrow> (case py_float s of Inr x \<Rightarrow> x | Inl _ \<Rightarrow> FNaN)
                         | VNum x \<Rightarrow> x
                         | _ \<Rightarrow> FNaN),
       year_of = (\<lambda>t. 1970 + t div (365 * ns_per_day)),
       top_values = (\<lambda>n xs. take n (remdups xs)) \<rparr>"

text \<open>No file can be read.\<close>

definition no_files :: "string \<Rightarrow> encoding \<Rightarrow> exn + frame" where
  "no_files path enc = Inl FileNotFoundError"

text \<open>One file, readable in every encoding.\<close>

definition one_file :: "string \<Rightarrow> frame \<Rightarrow> string \<Rightarrow> encoding \<Rightarrow> exn + frame" where
  "one_file name df path enc = (if path = name then Inr df else Inl FileNotFoundError)"

text \<open>A small investments file, as \<open>read_csv\<close> returns it.\<close>

definition example_investments :: frame where
  "example_investments =
     csv_frame
       [('' name '', [VStr ''A'', VStr ''B'', VStr ''C'']),
        ('' funding_total_usd '', [VStr '' 1,000,000 '', VStr '' - '', VNum FNaN]),
        (''status'', [VStr ''Acquired'', VStr ''acquired'', VStr ''operating'']),
        (''founded_at'', [VStr ''2010-01-01'', VStr ''2010-01-01'', VStr ''2010-01-01'']),
        (''last_funding_at'', [VStr ''2012-01-01'', VStr ''2010-04-01'', VStr ''2012-01-01''])]"

text \<open>The pandas in which that file is the primary file.\<close>

definition example_env :: pandas where
  "example_env = example_pandas (one_file ''investments_VC.csv'' example_investments)"

text \<open>Three files with columns missing.\<close>

definition status_only :: frame where
  "status_only = csv_frame [(''status'', [VStr ''acquired''])]"

definition no_status :: frame where
  "no_status =
     csv_frame
       [(''name'', [VStr ''A'']), (''founded_at'', [VStr ''2010-01-01'']),
        (''last_funding_at'', [VStr ''2012-01-01''])]"

definition no_founded :: frame where
  "no_founded =
     csv_frame [(''status'', [VStr ''acquired'']), (''last_funding_at'', [VStr ''2012-01-01''])]"

text \<open>
  A file whose rows have one field more than its header,

  \<^verbatim>\<open>status,founded_at,last_funding_at\<close>

  \<^verbatim>\<open>x,acquired,2010-01-01,2012-01-01\<close>

  \<^verbatim>\<open>x,operating,2010-01-01,2012-01-01\<close>

  as \<open>read_csv\<close> returns it: the first field of each row is the label of the row, and
  the two rows have the same label.
\<close>

definition example_labelled :: frame where
  "example_labelled =
     \<lparr> row_labels = [VStr ''x'', VStr ''x''],
       cols =
         [(''status'', [VStr ''acquired'', VStr ''operating'']),
          (''founded_at'', [VStr ''2010-01-01'', VStr ''2010-01-01'']),
          (''last_funding_at'', [VStr ''2012-01-01'', VStr ''2012-01-01''])],
       tz_cols = [] \<rparr>"

definition labelled_env :: pandas where
  "labelled_env = example_pandas (one_file ''investments_VC.csv'' example_labelled)"

text \<open>An acquired company whose two dates are 500 years apart.\<close>

definition example_far_dates :: frame where
  "example_far_dates =
     csv_frame
       [(''status'', [VStr ''acquired'']),
        (''founded_at'', [VStr ''1700-01-01'']),
        (''last_funding_at'', [VStr ''2200-01-01''])]"

text \<open>
  A sector of seven acquired companies, one of them without a name in the file.
\<close>

definition example_unnamed :: frame where
  "example_unnamed =
     csv_frame
       [(''name'', [VStr ''A'', VStr ''B'', VStr ''C'', VStr ''D'', VStr ''E'', VStr ''F'', VNum FNaN]),
        (''market'', replicate 7 (VStr ''Biotechnology'')),
        (''funding_total_usd'', replicate 7 (VNum (FNum 1000000))),
        (''status'', replicate 7 (VStr ''acquired'')),
        (''years_to_exit'', replicate 7 (VNum (FNum 2)))]"

text \<open>A forest for examples: it fits anything but an empty training set.\<close>

definition example_sklearn :: "unit sklearn" where
  "example_sklearn =
     \<lparr> fit_forest = (\<lambda>X y. if X = [] then Inl ValueError else Inr ()),
       predict_proba = (\<lambda>m x. Inr (FNum (1 / 2))) \<rparr>"

section \<open>Properties of the scalar cleaners\<close>

lemma py_float_error: "py_float s = Inl e \<Longrightarrow> e = ValueError"
  by (auto simp: py_float_def split: option.splits prod.splits)

lemma try_float_cases:
  "(case py_float t of
      Inr v \<Rightarrow> Inr (VNum (f v))
    | Inl ValueError \<Rightarrow> Inr (VNum (FNum 0))
    | Inl e \<Rightarrow> Inl e) =
   Inr (VNum (case py_float t of Inr v \<Rightarrow> f v | Inl _ \<Rightarrow> FNum 0))"
  by (cases "py_float t") (auto dest: py_float_error)

lemma clean_money_string_returns: "\<exists>v. clean_money_string (VStr s) = Inr (VNum v)"
  unfolding clean_money_string_def Let_def pyval.case try_float_cases by blast

lemma clean_currency_returns: "\<exists>v. clean_currency (VStr s) = Inr (VNum v)"
  unfolding clean_currency_def Let_def pyval.case try_float_cases[where f="\<lambda>v. v"] by auto

lemma digit_val_nonneg: "is_digit c \<Longrightarrow> 0 \<le> digit_val c"
  by (auto simp: is_digit_def digit_val_def)

lemma foldl_digits_nonneg:
  "0 \<le> a \<Longrightarrow> list_all is_digit s \<Longrightarrow> 0 \<le> foldl (\<lambda>a c. 10 * a + digit_val c) a s"
proof (induction s arbitrary: a)
  case Nil
  then show ?case by simp
next
  case (Cons c s)
  have "0 \<le> 10 * a + digit_val c"
    using Cons.prems digit_val_nonneg[of c] by simp
  then show ?case
    using Cons.IH[of "10 * a + digit_val c"] Cons.prems by simp
qed

lemma digits_val_nonneg: "list_all is_digit s \<Longrightarrow> 0 \<le> digits_val s"
  by (simp add: digits_val_def foldl_digits_nonneg)

lemma list_all_takeWhile: "list_all P (takeWhile P xs)"
  by (induction xs) auto

lemma parse_decimal_nonneg: "parse_decimal s = Some m \<Longrightarrow> 0 \<le> m"
proof -
  assume a: "parse_decimal s = Some m"
  define ip where "ip = takeWhile is_digit s"
  define fp where "fp =
    (case dropWhile is_digit s of [] \<Rightarrow> []
     | c # t \<Rightarrow> if c = CHR ''.'' then takeWhile is_digit t else [])"
  define q where "q = rat_of_int (digits_val (ip @ fp)) / 10 ^ length fp"
  have "list_all is_digit fp"
    by (simp add: fp_def list_all_takeWhile split: list.splits)
  then have q: "0 \<le> q"
    by (simp add: q_def ip_def digits_val_nonneg list_all_takeWhile)
  from a have "m = q \<or> (\<exists>k. m = q / 10 ^ k) \<or> (\<exists>k. m = q * 10 ^ k)"
    unfolding parse_decimal_def Let_def ip_def[symmetric] fp_def[symmetric] q_def[symmetric]
    by (auto split: list.splits if_splits prod.splits)
  then show ?thesis using q by auto
qed

lemma parse_abs_nonneg: "parse_abs r = Some v \<Longrightarrow> v = FNaN \<or> nonneg v"
  by (auto simp: parse_abs_def Let_def split: if_splits dest: parse_decimal_nonneg)

lemma set_strip_underscores: "strip_underscores p s = Some u \<Longrightarrow> set u \<subseteq> set s"
  by (induction p s arbitrary: u rule: strip_underscores.induct) (auto split: if_splits)

lemma set_float_strip: "set (float_strip s) \<subseteq> set s"
  by (auto simp: float_strip_def dest!: set_dropWhileD)

lemma set_py_strip: "set (py_strip s) \<subseteq> set s"
  by (auto simp: py_strip_def dest!: set_dropWhileD)

lemma set_remove_char: "set (remove_char c s) = set s - {c}"
  by (auto simp: remove_char_def)

text \<open>Without a minus sign anywhere in the text, \<open>float\<close> gives no negative value.\<close>

lemma py_float_nonneg:
  assumes "CHR ''-'' \<notin> set s" and "py_float s = Inr v"
  shows "v = FNaN \<or> nonneg v"
proof -
  from assms(2) obtain u neg r w
    where u: "strip_underscores (CHR 0x00) (float_strip s) = Some u"
      and ps: "parse_sign u = (neg, r)"
      and pa: "parse_abs r = Some w"
      and v: "v = (if neg then fneg w else w)"
    by (auto simp: py_float_def split: option.splits prod.splits)
  have "CHR ''-'' \<notin> set u"
    using assms(1) set_strip_underscores[OF u] set_float_strip[of s] by auto
  then have "\<not> neg"
    using ps by (auto simp: parse_sign_def split: list.splits if_splits)
  then show ?thesis
    using v parse_abs_nonneg[OF pa] by simp
qed

lemma dropWhile_keeps: "x \<in> set xs \<Longrightarrow> \<not> P x \<Longrightarrow> x \<in> set (dropWhile P xs)"
  by (induction xs) auto

lemma py_strip_keeps: "c \<in> set s \<Longrightarrow> \<not> is_space c \<Longrightarrow> c \<in> set (py_strip s)"
  by (simp add: py_strip_def dropWhile_keeps)

text \<open>A character that is neither white space, comma nor dollar survives the first cleaning.\<close>

lemma unit_letter_cleaned:
  assumes "\<not> is_space c" "c \<noteq> CHR '',''" "c \<noteq> CHR ''$''"
  shows "c \<in> set (remove_char (CHR '','') (remove_char (CHR ''$'') (py_strip s))) \<longleftrightarrow> c \<in> set s"
  using assms set_py_strip[of s] py_strip_keeps[of c s] by (auto simp: set_remove_char)

lemma clean_money_string_code_order:
  "clean_money_string x = clean_abbreviated_currency code_precedence x"
proof (cases x)
  case (VStr str)
  show ?thesis
    unfolding VStr clean_money_string_def clean_abbreviated_currency_def Let_def pyval.case
      try_float_cases code_precedence_def
    by simp
qed (simp_all add: clean_money_string_def clean_abbreviated_currency_def)

text \<open>
  The two precedences pick the same unit unless T occurs together with B, M or K.
\<close>

lemma detect_unit_agree:
  assumes "CHR ''T'' \<in> set s \<longrightarrow> CHR ''B'' \<notin> set s \<and> CHR ''M'' \<notin> set s \<and> CHR ''K'' \<notin> set s"
  shows "detect_unit code_precedence s = detect_unit spec_precedence s"
  using assms by (auto simp: code_precedence_def spec_precedence_def)

text \<open>
  C9. Both scalar cleaners return a value that is not a string unchanged, return a float
  for every string without raising, and are idempotent: the cleaner applied to its own
  result returns that result.
\<close>

theorem cleaners_idempotent:
  "(\<exists>y. clean_currency x = Inr y \<and> clean_currency y = Inr y) \<and>
   (\<exists>y. clean_money_string x = Inr y \<and> clean_money_string y = Inr y) \<and>
   (\<exists>v. clean_currency (VStr s) = Inr (VNum v)) \<and>
   (\<exists>v. clean_money_string (VStr s) = Inr (VNum v)) \<and>
   clean_currency (VNum w) = Inr (VNum w) \<and> clean_money_string (VNum w) = Inr (VNum w) \<and>
   clean_currency (VTime t) = Inr (VTime t) \<and> clean_money_string (VTime t) = Inr (VTime t) \<and>
   clean_currency VNaT = Inr VNaT \<and> clean_money_string VNaT = Inr VNaT"
proof -
  have fix_c: "clean_currency (VNum a) = Inr (VNum a)" "clean_currency (VTime b) = Inr (VTime b)"
    "clean_currency VNaT = Inr VNaT" for a b
    by (simp_all add: clean_currency_def)
  have fix_m: "clean_money_string (VNum a) = Inr (VNum a)"
    "clean_money_string (VTime b) = Inr (VTime b)" "clean_money_string VNaT = Inr VNaT" for a b
    by (simp_all add: clean_money_string_def)
  have idem_c: "\<exists>y. clean_currency x = Inr y \<and> clean_currency y = Inr y"
  proof (cases x)
    case (VStr u)
    obtain v where "clean_currency (VStr u) = Inr (VNum v)"
      using clean_currency_returns by blast
    then show ?thesis unfolding VStr using fix_c(1) by blast
  qed (use fix_c in blast)+
  have idem_m: "\<exists>y. clean_money_string x = Inr y \<and> clean_money_string y = Inr y"
  proof (cases x)
    case (VStr u)
    obtain v where "clean_money_string (VStr u) = Inr (VNum v)"
      using clean_money_string_returns by blast
    then show ?thesis unfolding VStr using fix_m(1) by blast
  qed (use fix_m in blast)+
  show ?thesis
    using idem_c idem_m clean_currency_returns[of s] clean_money_string_returns[of s]
      fix_c fix_m
    by blast
qed

text \<open>
  What \<open>clean_currency\<close> returns for a text: always a float, never an exception. With
  \<open>c\<close> the text stripped and without commas, it is 0.0 when \<open>c\<close> is empty, a single
  dash or no float literal, and otherwise exactly the value \<open>float\<close> reads from \<open>c\<close>;
  that value is non-negative or NaN when the text has no minus sign.
\<close>

lemma py_float_empty: "py_float [] = Inl ValueError"
  by code_simp

lemma py_float_dash: "py_float ''-'' = Inl ValueError"
  by code_simp

lemma clean_currency_value:
  "\<exists>v. clean_currency (VStr s) = Inr (VNum v) \<and>
       (CHR ''-'' \<notin> set s \<longrightarrow> v = FNaN \<or> nonneg v) \<and>
       (remove_char (CHR '','') (py_strip s) = [] \<or>
        remove_char (CHR '','') (py_strip s) = ''-'' \<or>
        py_float (remove_char (CHR '','') (py_strip s)) = Inl ValueError \<longrightarrow> v = FNum 0) \<and>
       (\<forall>w. py_float (remove_char (CHR '','') (py_strip s)) = Inr w \<longrightarrow> v = w)"
proof -
  let ?c = "remove_char (CHR '','') (py_strip s)"
  have cc: "clean_currency (VStr s) =
      (if ?c = ''-'' \<or> ?c = [] then Inr (VNum (FNum 0))
       else Inr (VNum (case py_float ?c of Inr v \<Rightarrow> v | Inl _ \<Rightarrow> FNum 0)))"
    unfolding clean_currency_def Let_def pyval.case try_float_cases[where f="\<lambda>v. v"] ..
  obtain v where v: "clean_currency (VStr s) = Inr (VNum v)"
    using clean_currency_returns by blast
  have zero: "v = FNum 0" if "?c = [] \<or> ?c = ''-'' \<or> py_float ?c = Inl ValueError"
    using that v unfolding cc by (auto split: if_splits)
  have val: "v = w" if w: "py_float ?c = Inr w" for w
  proof -
    have "?c \<noteq> []" "?c \<noteq> ''-''"
      using w py_float_empty py_float_dash by auto
    then show ?thesis using v w unfolding cc by simp
  qed
  have pos: "v = FNaN \<or> nonneg v" if m: "CHR ''-'' \<notin> set s"
  proof (cases "py_float ?c")
    case (Inl e)
    then have "py_float ?c = Inl ValueError" using py_float_error by blast
    then show ?thesis using zero by auto
  next
    case (Inr w)
    have "CHR ''-'' \<notin> set ?c"
      using m set_py_strip[of s] by (auto simp: set_remove_char)
    then have "w = FNaN \<or> nonneg w"
      using Inr py_float_nonneg by blast
    then show ?thesis using val[OF Inr] by simp
  qed
  show ?thesis using v zero pos val by blast
qed

text \<open>
  C2, as the specification states it, fails: the code looks for B first and for T last. On
  \<open>INFINITYB\<close> the code finds B, parses \<open>INFINITY\<close> and returns infinity, while the
  precedence T, B, M, K finds T first, is left with \<open>INFINIYB\<close> and returns 0.0.
\<close>

theorem clean_money_string_precedence_counterexample:
  "clean_money_string (VStr ''INFINITYB'') = Inr (VNum FPosInf) \<and>
   clean_abbreviated_currency spec_precedence (VStr ''INFINITYB'') = Inr (VNum (FNum 0))"
  by code_simp

text \<open>
  C2, amended. For every input, \<open>clean_money_string\<close> is the first-match cleaner with
  the precedence B, M, K, T (scales 1e9, 1e6, 1e3, 1e12; every occurrence of the letter
  found is removed, the rest parsed and scaled, scale 1.0 without a letter); it agrees
  with the precedence T, B, M, K on every string in which T does not occur together with
  B, M or K; and it maps \<open>$100B\<close> to 1.0e11 and \<open>$50M\<close> to 5.0e7.
\<close>

theorem clean_money_string_precedence:
  "clean_money_string x = clean_abbreviated_currency code_precedence x \<and>
   ((CHR ''T'' \<in> set str \<longrightarrow>
       CHR ''B'' \<notin> set str \<and> CHR ''M'' \<notin> set str \<and> CHR ''K'' \<notin> set str) \<longrightarrow>
    clean_money_string (VStr str) = clean_abbreviated_currency spec_precedence (VStr str)) \<and>
   clean_money_string (VStr ''$100B'') = Inr (VNum (FNum 100000000000)) \<and>
   clean_money_string (VStr ''$50M'') = Inr (VNum (FNum 50000000))"
proof -
  let ?s = "remove_char (CHR '','') (remove_char (CHR ''$'') (py_strip str))"
  have mem: "c \<in> set ?s \<longleftrightarrow> c \<in> set str" if "c \<in> set ''TBMK''" for c
    using that by (intro unit_letter_cleaned) (auto simp: is_space_def)
  have agree: "clean_money_string (VStr str) = clean_abbreviated_currency spec_precedence (VStr str)"
    if h: "CHR ''T'' \<in> set str \<longrightarrow>
             CHR ''B'' \<notin> set str \<and> CHR ''M'' \<notin> set str \<and> CHR ''K'' \<notin> set str"
  proof -
    have "detect_unit code_precedence ?s = detect_unit spec_precedence ?s"
      using h by (intro detect_unit_agree) (simp add: mem)
    then show ?thesis
      by (simp add: clean_money_string_code_order clean_abbreviated_currency_def)
  qed
  have b: "clean_money_string (VStr ''$100B'') = Inr (VNum (FNum 100000000000))" by code_simp
  have m: "clean_money_string (VStr ''$50M'') = Inr (VNum (FNum 50000000))" by code_simp
  show ?thesis using clean_money_string_code_order agree b m by blast
qed

theorem clean_money_string_precedence_witness:
  "CHR ''T'' \<notin> set ''$100B'' \<and>
   clean_abbreviated_currency spec_precedence (VStr ''$100B'') = Inr (VNum (FNum 100000000000))"
proof -
  have h: "CHR ''T'' \<notin> set ''$100B''"
    by simp
  note t = clean_money_string_precedence[of "VStr ''$100B''" "''$100B''"]
  from t h have "clean_money_string (VStr ''$100B'') =
      clean_abbreviated_currency spec_precedence (VStr ''$100B'')" by blast
  moreover from t have "clean_money_string (VStr ''$100B'') = Inr (VNum (FNum 100000000000))"
    by blast
  ultimately show ?thesis using h by simp
qed

text \<open>
  C5. The specification asks for the parsed decimal, 12.5 for the text \<open>12.5\<close>. The code
  removes the first dot for the digit test and then applies \<open>float\<close> to the text
  without the dot, so \<open>12.5\<close> comes out as 125.0; \<open>12.5.3\<close> is 0 as specified.
\<close>

theorem clean_employees_drops_dot:
  "clean_employees ''12.5'' = Inr (VNum (FNum 125)) \<and>
   clean_employees ''12.5.3'' = Inr (VNum (FNum 0)) \<and>
   clean_employees ''1,200'' = Inr (VNum (FNum 1200))"
  by code_simp

section \<open>Properties of the primary loader\<close>

lemma cols_set_col: "map_of (cols (set_col df name c)) = (map_of (cols df))(name \<mapsto> c)"
  by (simp add: set_col_def update_conv')

lemma row_labels_set_col: "row_labels (set_col df name c) = row_labels df"
  by (simp add: set_col_def)

lemma tz_cols_set_col: "tz_cols (set_col df name c) = tz_cols df"
  by (simp add: set_col_def)

lemma nrows_set_col: "nrows (set_col df name c) = nrows df"
  by (simp add: nrows_def row_labels_set_col)

lemma cols_set_datetime_col:
  "map_of (cols (set_datetime_col E col c df)) = (map_of (cols df))(col \<mapsto> to_datetime E c)"
  by (simp add: set_datetime_col_def set_col_def update_conv')

lemma row_labels_set_datetime_col: "row_labels (set_datetime_col E col c df) = row_labels df"
  by (simp add: set_datetime_col_def set_col_def)

lemma list_all_update:
  "list_all (\<lambda>nc. length (snd nc) = n) xs \<Longrightarrow> length c = n \<Longrightarrow>
   list_all (\<lambda>nc. length (snd nc) = n) (AList.update name c xs)"
  by (induction xs) auto

lemma all_len_set_col: "all_len n df \<Longrightarrow> length c = n \<Longrightarrow> all_len n (set_col df name c)"
  by (simp add: all_len_def set_col_def list_all_update)

lemma all_len_set_datetime_col:
  "all_len n df \<Longrightarrow> length c = n \<Longrightarrow> all_len n (set_datetime_col E col c df)"
  by (simp add: all_len_def set_datetime_col_def set_col_def list_all_update to_datetime_def)

lemma all_len_map_of: "all_len n df \<Longrightarrow> map_of (cols df) name = Some c \<Longrightarrow> length c = n"
  unfolding all_len_def by (auto simp: list_all_iff dest!: map_of_SomeD)

lemma try_map_length: "try_map f xs = Inr ys \<Longrightarrow> length ys = length xs"
  by (induction xs arbitrary: ys) (auto split: sum.splits)

lemma try_map_Inr: "try_map f xs = Inr ys \<Longrightarrow> list_all2 (\<lambda>x y. f x = Inr y) xs ys"
  by (induction xs arbitrary: ys) (auto split: sum.splits)

lemma try_map_Inl: "try_map f xs = Inl e \<Longrightarrow> \<exists>x \<in> set xs. f x = Inl e"
  by (induction xs) (auto split: sum.splits)

lemma try_map_clean_currency:
  "\<exists>ys. try_map (\<lambda>v. clean_currency (VStr (g v))) c = Inr ys"
proof (induction c)
  case Nil
  then show ?case by simp
next
  case (Cons v c)
  obtain w where "clean_currency (VStr (g v)) = Inr (VNum w)"
    using clean_currency_returns by blast
  with Cons show ?case by auto
qed

text \<open>
  Step 2 never raises; it keeps the column names, the column lengths and the row
  labels, and it changes no column but the funding total.
\<close>

lemma clean_funding_returns:
  "\<exists>df'. clean_funding E df = Inr df' \<and> dom (map_of (cols df')) = dom (map_of (cols df)) \<and>
         (all_len n df \<longrightarrow> all_len n df') \<and> row_labels df' = row_labels df"
proof (cases "map_of (cols df) ''funding_total_usd''")
  case None
  then show ?thesis by (simp add: clean_funding_def)
next
  case (Some c)
  show ?thesis
  proof (cases "is_object c")
    case False
    with Some show ?thesis by (simp add: clean_funding_def)
  next
    case True
    obtain ys where ys: "try_map (\<lambda>v. clean_currency (VStr (astype_str E v))) c = Inr ys"
      using try_map_clean_currency by blast
    have "length ys = length c" using try_map_length[OF ys] .
    then have "all_len n df \<longrightarrow> all_len n (set_col df ''funding_total_usd'' ys)"
      using all_len_map_of[OF _ Some] all_len_set_col by auto
    moreover have "dom (map_of (cols (set_col df ''funding_total_usd'' ys))) = dom (map_of (cols df))"
      using Some by (auto simp: cols_set_col)
    ultimately show ?thesis
      using Some True ys by (simp add: clean_funding_def row_labels_set_col)
  qed
qed

text \<open>What step 2 leaves in the funding column.\<close>

lemma clean_funding_column:
  assumes "clean_funding E df = Inr df'" and "map_of (cols df) ''funding_total_usd'' = Some c"
  shows "\<exists>c'. map_of (cols df') ''funding_total_usd'' = Some c' \<and> length c' = length c \<and>
           (\<forall>i<length c. if is_object c
                         then clean_currency (VStr (astype_str E (c ! i))) = Inr (c' ! i)
                         else c' ! i = c ! i)"
proof (cases "is_object c")
  case False
  then show ?thesis using assms by (simp add: clean_funding_def)
next
  case True
  then obtain ys where ys: "try_map (\<lambda>v. clean_currency (VStr (astype_str E v))) c = Inr ys"
    and df': "df' = set_col df ''funding_total_usd'' ys"
    using assms by (auto simp: clean_funding_def split: sum.splits)
  have "list_all2 (\<lambda>x y. clean_currency (VStr (astype_str E x)) = Inr y) c ys"
    using try_map_Inr[OF ys] .
  then have "length ys = length c"
    and "\<forall>i<length c. clean_currency (VStr (astype_str E (c ! i))) = Inr (ys ! i)"
    by (simp_all add: list_all2_conv_all_nth)
  then show ?thesis using True by (simp add: df' cols_set_col)
qed

lemma parse_date_col_props:
  "dom (map_of (cols (parse_date_col E col df))) = dom (map_of (cols df)) \<and>
   (all_len n df \<longrightarrow> all_len n (parse_date_col E col df)) \<and>
   row_labels (parse_date_col E col df) = row_labels df \<and>
   (\<forall>name. name \<noteq> col \<longrightarrow>
      map_of (cols (parse_date_col E col df)) name = map_of (cols df) name)"
proof (cases "map_of (cols df) col")
  case None
  then show ?thesis by (simp add: parse_date_col_def)
next
  case (Some c)
  have "all_len n df \<longrightarrow> all_len n (set_datetime_col E col c df)"
    using all_len_map_of[OF _ Some] all_len_set_datetime_col by auto
  then show ?thesis
    using Some
    by (auto simp: parse_date_col_def cols_set_datetime_col row_labels_set_datetime_col)
qed

lemma parse_dates_props:
  "dom (map_of (cols (parse_dates E df))) = dom (map_of (cols df)) \<and>
   (all_len n df \<longrightarrow> all_len n (parse_dates E df)) \<and>
   row_labels (parse_dates E df) = row_labels df \<and>
   (\<forall>name. name \<notin> set date_cols \<longrightarrow>
      map_of (cols (parse_dates E df)) name = map_of (cols df) name)"
proof -
  let ?a = "parse_date_col E ''founded_at'' df"
  let ?b = "parse_date_col E ''first_funding_at'' ?a"
  let ?c = "parse_date_col E ''last_funding_at'' ?b"
  note a = parse_date_col_props[of E "''founded_at''" df n]
  note b = parse_date_col_props[of E "''first_funding_at''" ?a n]
  note c = parse_date_col_props[of E "''last_funding_at''" ?b n]
  have eq: "parse_dates E df = ?c"
    by (simp add: parse_dates_def date_cols_def)
  have d: "dom (map_of (cols ?c)) = dom (map_of (cols df))"
    using a b c by simp
  have l: "all_len n df \<longrightarrow> all_len n ?c"
    using a b c by simp
  have r: "row_labels ?c = row_labels df"
    using a b c by simp
  have k: "map_of (cols ?c) name = map_of (cols df) name" if "name \<notin> set date_cols" for name
  proof -
    have "name \<noteq> ''founded_at''" "name \<noteq> ''first_funding_at''" "name \<noteq> ''last_funding_at''"
      using that by (auto simp: date_cols_def)
    then show ?thesis using a b c by simp
  qed
  show ?thesis unfolding eq using d l r k by blast
qed

lemma founded_year_step_props:
  "dom (map_of (cols (founded_year_step E df))) \<subseteq> insert ''founded_year'' (dom (map_of (cols df))) \<and>
   dom (map_of (cols df)) \<subseteq> dom (map_of (cols (founded_year_step E df))) \<and>
   (all_len n df \<longrightarrow> all_len n (founded_year_step E df)) \<and>
   row_labels (founded_year_step E df) = row_labels df \<and>
   (\<forall>name. name \<noteq> ''founded_year'' \<longrightarrow>
      map_of (cols (founded_year_step E df)) name = map_of (cols df) name)"
proof (cases "map_of (cols df) ''founded_year''")
  case (Some c)
  have "all_len n df \<longrightarrow> all_len n (set_col df ''founded_year'' (map (\<lambda>v. VNum (to_numeric E v)) c))"
    using all_len_map_of[OF _ Some] all_len_set_col by auto
  then show ?thesis
    using Some by (auto simp: founded_year_step_def cols_set_col row_labels_set_col)
next
  case None
  show ?thesis
  proof (cases "map_of (cols df) ''founded_at''")
    case N2: None
    with None show ?thesis by (auto simp: founded_year_step_def)
  next
    case (Some c)
    have "all_len n df \<longrightarrow> all_len n (set_col df ''founded_year'' (map (dt_year E) c))"
      using all_len_map_of[OF _ Some] all_len_set_col by auto
    then show ?thesis
      using None Some by (auto simp: founded_year_step_def cols_set_col row_labels_set_col)
  qed
qed

lemma normalize_status_props:
  "dom (map_of (cols (normalize_status E df))) = dom (map_of (cols df)) \<and>
   (all_len n df \<longrightarrow> all_len n (normalize_status E df)) \<and>
   row_labels (normalize_status E df) = row_labels df \<and>
   (\<forall>name. name \<noteq> ''status'' \<longrightarrow>
      map_of (cols (normalize_status E df)) name = map_of (cols df) name)"
proof (cases "map_of (cols df) ''status''")
  case None
  then show ?thesis by (simp add: normalize_status_def)
next
  case (Some c)
  have "all_len n df \<longrightarrow>
        all_len n (set_col df ''status'' (map (\<lambda>v. VStr (py_lower (py_strip (astype_str E v)))) c))"
    using all_len_map_of[OF _ Some] all_len_set_col by auto
  then show ?thesis
    using Some by (auto simp: normalize_status_def cols_set_col row_labels_set_col)
qed

lemma normalize_market_props:
  "dom (map_of (cols (normalize_market E df))) = dom (map_of (cols df)) \<and>
   (all_len n df \<longrightarrow> all_len n (normalize_market E df)) \<and>
   row_labels (normalize_market E df) = row_labels df \<and>
   (\<forall>name. name \<noteq> ''market'' \<longrightarrow>
      map_of (cols (normalize_market E df)) name = map_of (cols df) name)"
proof (cases "map_of (cols df) ''market''")
  case None
  then show ?thesis by (simp add: normalize_market_def)
next
  case (Some c)
  have "all_len n df \<longrightarrow>
        all_len n (set_col df ''market'' (map (\<lambda>v. VStr (py_strip (astype_str E v))) c))"
    using all_len_map_of[OF _ Some] all_len_set_col by auto
  then show ?thesis
    using Some by (auto simp: normalize_market_def cols_set_col row_labels_set_col)
qed

text \<open>Steps 3 to 6 together.\<close>

lemma prepared_props:
  "dom (map_of (cols df2)) \<subseteq> dom (map_of (cols (prepared E df2))) \<and>
   dom (map_of (cols (prepared E df2))) \<subseteq> insert ''founded_year'' (dom (map_of (cols df2))) \<and>
   (all_len n df2 \<longrightarrow> all_len n (prepared E df2)) \<and>
   row_labels (prepared E df2) = row_labels df2 \<and>
   map_of (cols (prepared E df2)) ''funding_total_usd'' = map_of (cols df2) ''funding_total_usd''"
proof -
  let ?a = "parse_dates E df2"
  let ?b = "founded_year_step E ?a"
  let ?c = "normalize_status E ?b"
  note a = parse_dates_props[of E df2 n]
  note b = founded_year_step_props[of E ?a n]
  note c = normalize_status_props[of E ?b n]
  note d = normalize_market_props[of E ?c n]
  have "dom (map_of (cols (prepared E df2))) = dom (map_of (cols ?b))"
    using c d by (simp add: prepared_def)
  moreover have "all_len n df2 \<longrightarrow> all_len n (prepared E df2)"
    using a b c d by (simp add: prepared_def)
  moreover have "row_labels (prepared E df2) = row_labels df2"
    using a b c d by (simp add: prepared_def)
  moreover have "map_of (cols (prepared E df2)) ''funding_total_usd'' =
      map_of (cols df2) ''funding_total_usd''"
  proof -
    have "''funding_total_usd'' \<notin> set date_cols"
      by (simp add: date_cols_def)
    then have "map_of (cols ?a) ''funding_total_usd'' = map_of (cols df2) ''funding_total_usd''"
      using a by blast
    moreover have "map_of (cols ?b) ''funding_total_usd'' = map_of (cols ?a) ''funding_total_usd''"
      using b by simp
    moreover have "map_of (cols ?c) ''funding_total_usd'' = map_of (cols ?b) ''funding_total_usd''"
      using c by simp
    moreover have "map_of (cols (normalize_market E ?c)) ''funding_total_usd'' =
        map_of (cols ?c) ''funding_total_usd''"
      using d by simp
    ultimately show ?thesis by (simp add: prepared_def)
  qed
  ultimately show ?thesis using a b by auto
qed

lemma prepared_has:
  assumes "name \<noteq> ''founded_year''"
  shows "map_of (cols (prepared E df2)) name = None \<longleftrightarrow> map_of (cols df2) name = None"
  using prepared_props[of df2 E 0] assms by (auto simp: domIff subset_iff)

lemma load_data_prepared:
  "read_primary E filepath = Inr df0 \<Longrightarrow>
   \<exists>df2. clean_funding E (strip_columns df0) = Inr df2 \<and>
         dom (map_of (cols df2)) = dom (map_of (cols (strip_columns df0))) \<and>
         (all_len n (strip_columns df0) \<longrightarrow> all_len n df2) \<and>
         row_labels df2 = row_labels df0 \<and>
         load_data E filepath = years_to_exit_step (prepared E df2)"
  using clean_funding_returns[of E "strip_columns df0" n]
  by (auto simp: load_data_def strip_columns_def)

lemma wf_all_len: "wf_frame df \<Longrightarrow> all_len (nrows df) df"
  by (simp add: wf_frame_def all_len_def)

text \<open>What line 91 and line 93 give for one exit.\<close>

lemma exit_row_error: "exit_row r = Inl e \<Longrightarrow> e = OverflowError"
  by (cases "fst (snd (snd r))"; cases "snd (snd (snd r))")
     (auto simp: exit_row_def duration_years_def split: if_splits)

lemma exit_row_value:
  "exit_row r = Inr p \<Longrightarrow>
   p = (fst r, case duration_years (fst (snd (snd r))) (snd (snd (snd r))) of
                 Inr y \<Rightarrow> drop_short y | Inl e \<Rightarrow> VNum FNaN)"
  by (auto simp: exit_row_def split: sum.splits)

lemma list_all2_map: "list_all2 (\<lambda>x y. y = g x) xs ys \<Longrightarrow> ys = map g xs"
  by (induction rule: list_all2_induct) auto

text \<open>The labelled rows of a table with distinct labels, filtered and mapped, as a lookup.\<close>

lemma map_of_labelled:
  assumes d: "distinct ls" and len: "length xs = length ls" and i: "i < length ls"
  shows "map_of (map (\<lambda>r. (fst r, h r)) (filter P (zip ls xs))) (ls ! i) =
           (if P (ls ! i, xs ! i) then Some (h (ls ! i, xs ! i)) else None)"
proof -
  let ?l = "map (\<lambda>r. (fst r, h r)) (filter P (zip ls xs))"
  have fst: "map fst ?l = map fst (filter P (zip ls xs))"
    by (simp add: comp_def)
  have "distinct (map fst (zip ls xs))"
    using d len by simp
  then have dist: "distinct (map fst ?l)"
    unfolding fst by (rule distinct_map_filter)
  show ?thesis
  proof (cases "P (ls ! i, xs ! i)")
    case True
    have "(ls ! i, xs ! i) \<in> set (zip ls xs)"
      unfolding in_set_zip using i len by (intro exI[of _ i]) simp
    then have "(ls ! i, h (ls ! i, xs ! i)) \<in> set ?l"
      using True by force
    then have "map_of ?l (ls ! i) = Some (h (ls ! i, xs ! i))"
      using dist by simp
    then show ?thesis
      by (subst if_P[OF True])
  next
    case False
    have "ls ! i \<notin> fst ` set ?l"
    proof
      assume "ls ! i \<in> fst ` set ?l"
      then obtain x where m: "(ls ! i, x) \<in> set (zip ls xs)" and p: "P (ls ! i, x)"
        by auto
      from m obtain k where k: "ls ! k = ls ! i" "xs ! k = x" "k < length ls"
        by (auto simp: in_set_zip)
      have "k = i"
        using k(1,3) i d by (simp add: nth_eq_iff_index_eq)
      then show False using k(2) p False by simp
    qed
    then have "map_of ?l (ls ! i) = None"
      by (simp add: map_of_eq_None_iff)
    then show ?thesis
      by (subst if_not_P[OF False])
  qed
qed

text \<open>
  Step 7 on a table whose three columns are present: the errors it can raise, and the
  table it returns otherwise.
\<close>

lemma years_to_exit_step_unfold:
  assumes st: "map_of (cols df0) ''status'' = Some status"
    and lf: "map_of (cols df0) ''last_funding_at'' = Some last_funding"
    and fa: "map_of (cols df0) ''founded_at'' = Some founded"
  shows "years_to_exit_step df0 =
     (if (''last_funding_at'' \<in> set (tz_cols df0)) \<noteq> (''founded_at'' \<in> set (tz_cols df0))
      then Inl TypeError
      else
        (case try_map exit_row
                (filter (\<lambda>r. fst (snd r) \<in> set exit_statuses)
                   (zip (row_labels df0) (zip status (zip last_funding founded)))) of
           Inl e \<Rightarrow> Inl e
         | Inr exit_years \<Rightarrow>
             if \<not> distinct (map fst exit_years) then Inl ValueError
             else Inr (set_col (set_col df0 ''years_to_exit'' (replicate (nrows df0) (VNum FNaN)))
                         ''years_to_exit'' (write_by_label exit_years (row_labels df0)))))"
  using st lf fa
  by (simp add: years_to_exit_step_def get_col_def cols_set_col Let_def row_labels_set_col
        tz_cols_set_col cong: if_cong sum.case_cong)

lemma years_to_exit_step_error:
  "(map_of (cols p) ''status'' = None \<longrightarrow> years_to_exit_step p = Inl (KeyError ''status'')) \<and>
   (map_of (cols p) ''status'' \<noteq> None \<and> map_of (cols p) ''last_funding_at'' = None \<longrightarrow>
      years_to_exit_step p = Inl (KeyError ''last_funding_at'')) \<and>
   (map_of (cols p) ''status'' \<noteq> None \<and> map_of (cols p) ''last_funding_at'' \<noteq> None \<and>
    map_of (cols p) ''founded_at'' = None \<longrightarrow>
      years_to_exit_step p = Inl (KeyError ''founded_at''))"
  by (auto simp: years_to_exit_step_def get_col_def cols_set_col Let_def)

text \<open>With a status column, step 7 does not raise \<open>KeyError('status')\<close>.\<close>

lemma years_to_exit_step_not_status:
  assumes st: "map_of (cols p) ''status'' = Some status"
  shows "years_to_exit_step p \<noteq> Inl (KeyError ''status'')"
proof (cases "map_of (cols p) ''last_funding_at''")
  case None
  then show ?thesis using st years_to_exit_step_error[of p] by simp
next
  case lf: (Some last_funding)
  show ?thesis
  proof (cases "map_of (cols p) ''founded_at''")
    case None
    then show ?thesis using st lf years_to_exit_step_error[of p] by simp
  next
    case fa: (Some founded)
    let ?ex = "filter (\<lambda>r. fst (snd r) \<in> set exit_statuses)
                 (zip (row_labels p) (zip status (zip last_funding founded)))"
    show ?thesis
    proof (cases "try_map exit_row ?ex")
      case (Inl e)
      then have "e = OverflowError"
        using try_map_Inl[OF Inl] exit_row_error by blast
      then show ?thesis
        unfolding years_to_exit_step_unfold[OF st lf fa] using Inl by simp
    next
      case (Inr ey)
      then show ?thesis
        unfolding years_to_exit_step_unfold[OF st lf fa] by simp
    qed
  qed
qed

text \<open>
  When the row labels are distinct, the table step 7 returns has in each row the value
  of that row.
\<close>

lemma years_to_exit_step_rows:
  assumes len: "all_len n df0" and nr: "nrows df0 = n"
    and dl: "distinct (row_labels df0)"
    and st: "map_of (cols df0) ''status'' = Some status"
    and lf: "map_of (cols df0) ''last_funding_at'' = Some last_funding"
    and fa: "map_of (cols df0) ''founded_at'' = Some founded"
    and ok: "years_to_exit_step df0 = Inr df"
  shows "\<exists>ys. df = set_col (set_col df0 ''years_to_exit'' (replicate n (VNum FNaN)))
                     ''years_to_exit'' ys \<and>
           length ys = n \<and> length status = n \<and> length last_funding = n \<and> length founded = n \<and>
           (\<forall>i<n. ys ! i = exit_value (status ! i) (last_funding ! i) (founded ! i))"
proof -
  have ls: "length status = n" "length last_funding = n" "length founded = n"
    using all_len_map_of[OF len] st lf fa by auto
  have ll: "length (row_labels df0) = n"
    using nr by (simp add: nrows_def)
  let ?P = "\<lambda>r. fst (snd r) \<in> set exit_statuses"
  let ?h = "\<lambda>r. case duration_years (fst (snd (snd r))) (snd (snd (snd r))) of
                  Inr y \<Rightarrow> drop_short y | Inl e \<Rightarrow> VNum FNaN"
  let ?xs = "zip status (zip last_funding founded)"
  let ?ex = "filter ?P (zip (row_labels df0) ?xs)"
  obtain ey where ey: "try_map exit_row ?ex = Inr ey"
    and df: "df = set_col (set_col df0 ''years_to_exit'' (replicate n (VNum FNaN)))
                    ''years_to_exit'' (write_by_label ey (row_labels df0))"
    using ok unfolding years_to_exit_step_unfold[OF st lf fa] nr
    by (cases "try_map exit_row ?ex") (auto split: if_splits)
  have "list_all2 (\<lambda>r p. exit_row r = Inr p) ?ex ey"
    using try_map_Inr[OF ey] .
  then have "list_all2 (\<lambda>r p. p = (fst r, ?h r)) ?ex ey"
    by (rule list_all2_mono) (rule exit_row_value)
  then have eym: "ey = map (\<lambda>r. (fst r, ?h r)) ?ex"
    by (rule list_all2_map)
  let ?ys = "write_by_label ey (row_labels df0)"
  have ly: "length ?ys = n"
    by (simp add: write_by_label_def ll)
  have "?ys ! i = exit_value (status ! i) (last_funding ! i) (founded ! i)" if i: "i < n" for i
  proof -
    have lx: "length ?xs = length (row_labels df0)"
      using ls ll by simp
    have il: "i < length (row_labels df0)"
      using i ll by simp
    have "?ys ! i = (case map_of ey (row_labels df0 ! i) of Some y \<Rightarrow> y | None \<Rightarrow> VNum FNaN)"
      using il by (simp add: write_by_label_def)
    also have "map_of ey (row_labels df0 ! i) =
        (if ?P (row_labels df0 ! i, ?xs ! i) then Some (?h (row_labels df0 ! i, ?xs ! i)) else None)"
      unfolding eym by (rule map_of_labelled[OF dl lx il])
    finally show ?thesis
      using i ls by (simp add: exit_value_def)
  qed
  then show ?thesis using df ly ls by blast
qed

lemma exit_value_defined:
  "\<not> isna (exit_value st l f) \<longleftrightarrow>
     st \<in> set exit_statuses \<and>
     (\<exists>a b. l = VTime a \<and> f = VTime b \<and>
            - 9223372036854775808 \<le> a - b \<and> a - b \<le> 9223372036854775807 \<and>
            1 / 2 \<le> rat_of_int ((a - b) div ns_per_day) / 365)"
  by (cases l; cases f)
     (auto simp: exit_value_def duration_years_def drop_short_def isna_def)

lemma exit_value_years:
  "\<not> isna (exit_value st (VTime a) (VTime b)) \<Longrightarrow>
   exit_value st (VTime a) (VTime b) = VNum (FNum (rat_of_int ((a - b) div ns_per_day) / 365))"
  by (auto simp: exit_value_def duration_years_def drop_short_def isna_def split: if_splits)

lemma exit_value_other: "st \<notin> set exit_statuses \<Longrightarrow> exit_value st l f = VNum FNaN"
  by (simp add: exit_value_def)

text \<open>
  When the rows of the table read have distinct labels (as they have when \<open>read_csv\<close>
  numbers them), every table \<open>load_data\<close> returns keeps the invariant: the value of
  \<open>years_to_exit\<close> in a row is defined (not NaN) exactly when the row's status is
  \<open>acquired\<close> or \<open>ipo\<close>, both its last-funding and its founding date are known, and
  the whole days between them over 365 are at least 0.5; the value is then that
  quotient; and every row with another status has NaN.
\<close>

lemma years_to_exit_distinct_labels:
  assumes rd: "read_primary E filepath = Inr df0"
    and wf: "wf_frame (strip_columns df0)"
    and dl: "distinct (row_labels df0)"
    and ld: "load_data E filepath = Inr df"
  shows "\<exists>status last_funding founded ys.
           get_col df ''status'' = Inr status \<and>
           get_col df ''last_funding_at'' = Inr last_funding \<and>
           get_col df ''founded_at'' = Inr founded \<and>
           get_col df ''years_to_exit'' = Inr ys \<and>
           length status = length ys \<and> length last_funding = length ys \<and>
           length founded = length ys \<and>
           (\<forall>i<length ys.
              (\<not> isna (ys ! i) \<longleftrightarrow>
                 status ! i \<in> set exit_statuses \<and>
                 (\<exists>a b. last_funding ! i = VTime a \<and> founded ! i = VTime b \<and>
                        - 9223372036854775808 \<le> a - b \<and> a - b \<le> 9223372036854775807 \<and>
                        1 / 2 \<le> rat_of_int ((a - b) div ns_per_day) / 365)) \<and>
              (\<forall>a b. \<not> isna (ys ! i) \<and> last_funding ! i = VTime a \<and> founded ! i = VTime b \<longrightarrow>
                     ys ! i = VNum (FNum (rat_of_int ((a - b) div ns_per_day) / 365))) \<and>
              (status ! i \<notin> set exit_statuses \<longrightarrow> ys ! i = VNum FNaN))"
proof -
  let ?n = "nrows (strip_columns df0)"
  obtain df2 where df2: "all_len ?n df2" and rl: "row_labels df2 = row_labels df0"
    and run: "load_data E filepath = years_to_exit_step (prepared E df2)"
    using load_data_prepared[OF rd, of ?n] wf_all_len[OF wf] by auto
  let ?p = "prepared E df2"
  have len: "all_len ?n ?p"
    using prepared_props[of df2 E ?n] df2 by simp
  have rp: "row_labels ?p = row_labels df0"
    using prepared_props[of df2 E ?n] rl by simp
  have nr: "nrows ?p = ?n"
    by (simp add: nrows_def rp strip_columns_def)
  have dp: "distinct (row_labels ?p)"
    using dl rp by simp
  have ok: "years_to_exit_step ?p = Inr df"
    using run ld by simp
  then obtain status last_funding founded
    where st: "map_of (cols ?p) ''status'' = Some status"
      and lf: "map_of (cols ?p) ''last_funding_at'' = Some last_funding"
      and fa: "map_of (cols ?p) ''founded_at'' = Some founded"
    using years_to_exit_step_error[of ?p] by (cases "map_of (cols ?p) ''status''";
      cases "map_of (cols ?p) ''last_funding_at''"; cases "map_of (cols ?p) ''founded_at''") auto
  from years_to_exit_step_rows[OF len nr dp st lf fa ok] obtain ys
    where df: "df = set_col (set_col ?p ''years_to_exit'' (replicate ?n (VNum FNaN)))
                      ''years_to_exit'' ys"
      and l: "length ys = ?n" "length status = ?n" "length last_funding = ?n" "length founded = ?n"
      and rows: "\<forall>i<?n. ys ! i = exit_value (status ! i) (last_funding ! i) (founded ! i)"
    by auto
  have g: "get_col df ''status'' = Inr status" "get_col df ''last_funding_at'' = Inr last_funding"
    "get_col df ''founded_at'' = Inr founded" "get_col df ''years_to_exit'' = Inr ys"
    using st lf fa by (simp_all add: df get_col_def cols_set_col)
  have "(\<not> isna (ys ! i) \<longleftrightarrow>
           status ! i \<in> set exit_statuses \<and>
           (\<exists>a b. last_funding ! i = VTime a \<and> founded ! i = VTime b \<and>
                  - 9223372036854775808 \<le> a - b \<and> a - b \<le> 9223372036854775807 \<and>
                  1 / 2 \<le> rat_of_int ((a - b) div ns_per_day) / 365)) \<and>
        (\<forall>a b. \<not> isna (ys ! i) \<and> last_funding ! i = VTime a \<and> founded ! i = VTime b \<longrightarrow>
               ys ! i = VNum (FNum (rat_of_int ((a - b) div ns_per_day) / 365))) \<and>
        (status ! i \<notin> set exit_statuses \<longrightarrow> ys ! i = VNum FNaN)"
    if "i < length ys" for i
  proof -
    have y: "ys ! i = exit_value (status ! i) (last_funding ! i) (founded ! i)"
      using rows that l by simp
    have c1: "\<not> isna (ys ! i) \<longleftrightarrow>
           status ! i \<in> set exit_statuses \<and>
           (\<exists>a b. last_funding ! i = VTime a \<and> founded ! i = VTime b \<and>
                  - 9223372036854775808 \<le> a - b \<and> a - b \<le> 9223372036854775807 \<and>
                  1 / 2 \<le> rat_of_int ((a - b) div ns_per_day) / 365)"
      unfolding y by (rule exit_value_defined)
    have c2: "ys ! i = VNum (FNum (rat_of_int ((a - b) div ns_per_day) / 365))"
      if "\<not> isna (ys ! i) \<and> last_funding ! i = VTime a \<and> founded ! i = VTime b" for a b
      using that exit_value_years[of "status ! i" a b] unfolding y by auto
    have c3: "status ! i \<notin> set exit_statuses \<longrightarrow> ys ! i = VNum FNaN"
      unfolding y by (simp add: exit_value_other)
    show ?thesis using c1 c2 c3 by blast
  qed
  then have "\<forall>i<length ys.
              (\<not> isna (ys ! i) \<longleftrightarrow>
                 status ! i \<in> set exit_statuses \<and>
                 (\<exists>a b. last_funding ! i = VTime a \<and> founded ! i = VTime b \<and>
                        - 9223372036854775808 \<le> a - b \<and> a - b \<le> 9223372036854775807 \<and>
                        1 / 2 \<le> rat_of_int ((a - b) div ns_per_day) / 365)) \<and>
              (\<forall>a b. \<not> isna (ys ! i) \<and> last_funding ! i = VTime a \<and> founded ! i = VTime b \<longrightarrow>
                     ys ! i = VNum (FNum (rat_of_int ((a - b) div ns_per_day) / 365))) \<and>
              (status ! i \<notin> set exit_statuses \<longrightarrow> ys ! i = VNum FNaN)"
    by blast
  moreover have "length status = length ys" "length last_funding = length ys"
    "length founded = length ys"
    using l by simp_all
  ultimately show ?thesis using g by blast
qed

text \<open>
  C3. The specification is right about what the column is for (``Time to Liquidity for
  Exits''), and the code misses it in one case. Line 94 writes the values of the exits
  back by row label, and \<open>read_csv\<close> takes the row labels from the file when its rows
  have one field more than its header. In the file of \<open>example_labelled\<close> an acquired
  and an operating company have the same label \<open>x\<close>: the operating company gets the 2.0
  years of the acquired one, where the claim says its \<open>years_to_exit\<close> is undefined.
\<close>

theorem years_to_exit_by_label:
  "load_data labelled_env ''investments_VC.csv'' =
     Inr \<lparr> row_labels = [VStr ''x'', VStr ''x''],
           cols =
             [(''status'', [VStr ''acquired'', VStr ''operating'']),
              (''founded_at'', [VTime 1262304000000000000, VTime 1262304000000000000]),
              (''last_funding_at'', [VTime 1325376000000000000, VTime 1325376000000000000]),
              (''founded_year'', [VNum (FNum 2010), VNum (FNum 2010)]),
              (''years_to_exit'', [VNum (FNum 2), VNum (FNum 2)])],
           tz_cols = [] \<rparr> \<and>
   VStr ''operating'' \<notin> set exit_statuses \<and> \<not> isna (VNum (FNum 2))"
  by code_simp

text \<open>
  C6, as the specification states it, fails: \<open>clean_currency\<close> parses any float literal, so a
  text with a minus sign gives a negative value, and the text \<open>nan\<close> (which is what
  \<open>astype(str)\<close> makes of a missing cell) gives NaN, not 0.0. So the missing funding
  total of the third company of \<open>example_investments\<close> is NaN in the table \<open>load_data\<close>
  returns.
\<close>

theorem clean_currency_negative_counterexample:
  "clean_currency (VStr ''-5'') = Inr (VNum (FNum (- 5))) \<and> \<not> nonneg (FNum (- 5)) \<and>
   clean_currency (VStr ''nan'') = Inr (VNum FNaN) \<and> \<not> nonneg FNaN \<and>
   load_data example_env ''investments_VC.csv'' =
     Inr \<lparr> row_labels = [VNum (FNum 0), VNum (FNum 1), VNum (FNum 2)],
           cols =
             [(''name'', [VStr ''A'', VStr ''B'', VStr ''C'']),
              (''funding_total_usd'', [VNum (FNum 1000000), VNum (FNum 0), VNum FNaN]),
              (''status'', [VStr ''acquired'', VStr ''acquired'', VStr ''operating'']),
              (''founded_at'', [VTime 1262304000000000000, VTime 1262304000000000000,
                                VTime 1262304000000000000]),
              (''last_funding_at'', [VTime 1325376000000000000, VTime 1270080000000000000,
                                     VTime 1325376000000000000]),
              (''founded_year'', [VNum (FNum 2010), VNum (FNum 2010), VNum (FNum 2010)]),
              (''years_to_exit'', [VNum (FNum 2), VNum FNaN, VNum FNaN])],
           tz_cols = [] \<rparr>"
  by code_simp

text \<open>
  C6, amended. For every input string \<open>clean_currency\<close> returns a float without
  raising. With \<open>c\<close> the text stripped and without commas, the float is 0.0 when \<open>c\<close> is
  empty, a single dash or not a float literal, and otherwise it is exactly the value
  \<open>float\<close> reads from \<open>c\<close>; it is non-negative or NaN whenever the input has no minus
  sign. Hence, in the table \<open>load_data\<close> returns for a table read with distinct
  stripped column names, a textual \<open>funding_total_usd\<close> column holds cell by cell what
  \<open>clean_currency\<close> returns for the text of the cell as read (\<open>nan\<close> for a missing
  cell), and a \<open>funding_total_usd\<close> column that is not textual is as it was read.
\<close>

theorem clean_currency_float:
  "(\<exists>v. clean_currency (VStr s) = Inr (VNum v) \<and>
        (CHR ''-'' \<notin> set s \<longrightarrow> v = FNaN \<or> nonneg v) \<and>
        (remove_char (CHR '','') (py_strip s) = [] \<or>
         remove_char (CHR '','') (py_strip s) = ''-'' \<or>
         py_float (remove_char (CHR '','') (py_strip s)) = Inl ValueError \<longrightarrow> v = FNum 0) \<and>
        (\<forall>w. py_float (remove_char (CHR '','') (py_strip s)) = Inr w \<longrightarrow> v = w)) \<and>
   (read_primary E filepath = Inr df0 \<and> wf_frame (strip_columns df0) \<and>
    map_of (cols (strip_columns df0)) ''funding_total_usd'' = Some col \<and>
    load_data E filepath = Inr df \<longrightarrow>
      (\<exists>col'. get_col df ''funding_total_usd'' = Inr col' \<and> length col' = length col \<and>
         (\<forall>i<length col.
            if is_object col
            then clean_currency (VStr (astype_str E (col ! i))) = Inr (col' ! i)
            else col' ! i = col ! i)))"
proof -
  have loaded: "\<exists>col'. get_col df ''funding_total_usd'' = Inr col' \<and> length col' = length col \<and>
         (\<forall>i<length col.
            if is_object col
            then clean_currency (VStr (astype_str E (col ! i))) = Inr (col' ! i)
            else col' ! i = col ! i)"
    if rd: "read_primary E filepath = Inr df0"
      and fu: "map_of (cols (strip_columns df0)) ''funding_total_usd'' = Some col"
      and ld: "load_data E filepath = Inr df"
  proof -
    obtain df2 where cf: "clean_funding E (strip_columns df0) = Inr df2"
      and run: "load_data E filepath = years_to_exit_step (prepared E df2)"
      using load_data_prepared[OF rd, of 0] by auto
    let ?p = "prepared E df2"
    obtain col' where c': "map_of (cols df2) ''funding_total_usd'' = Some col'"
      and lc: "length col' = length col"
      and cells: "\<forall>i<length col.
            if is_object col
            then clean_currency (VStr (astype_str E (col ! i))) = Inr (col' ! i)
            else col' ! i = col ! i"
      using clean_funding_column[OF cf fu] by blast
    have pf: "map_of (cols ?p) ''funding_total_usd'' = Some col'"
      using prepared_props[of df2 E 0] c' by simp
    have ok: "years_to_exit_step ?p = Inr df"
      using run ld by simp
    then obtain status last_funding founded
      where st: "map_of (cols ?p) ''status'' = Some status"
        and lf: "map_of (cols ?p) ''last_funding_at'' = Some last_funding"
        and fa: "map_of (cols ?p) ''founded_at'' = Some founded"
      using years_to_exit_step_error[of ?p] by (cases "map_of (cols ?p) ''status''";
        cases "map_of (cols ?p) ''last_funding_at''"; cases "map_of (cols ?p) ''founded_at''") auto
    obtain ys where "df = set_col (set_col ?p ''years_to_exit'' (replicate (nrows ?p) (VNum FNaN)))
                      ''years_to_exit'' ys"
      using ok unfolding years_to_exit_step_unfold[OF st lf fa]
      by (auto split: if_splits sum.splits)
    then have "get_col df ''funding_total_usd'' = Inr col'"
      using pf by (simp add: get_col_def cols_set_col)
    then show ?thesis using lc cells by blast
  qed
  show ?thesis using clean_currency_value[of s] loaded by blast
qed

theorem clean_currency_float_witness:
  "CHR ''-'' \<notin> set '' 1,000,000 '' \<and>
   py_float (remove_char (CHR '','') (py_strip '' 1,000,000 '')) = Inr (FNum 1000000) \<and>
   clean_currency (VStr '' 1,000,000 '') = Inr (VNum (FNum 1000000)) \<and>
   nonneg (FNum 1000000) \<and>
   py_float (remove_char (CHR '','') (py_strip ''n/a'')) = Inl ValueError \<and>
   clean_currency (VStr ''n/a'') = Inr (VNum (FNum 0)) \<and>
   read_primary example_env ''investments_VC.csv'' = Inr example_investments \<and>
   wf_frame (strip_columns example_investments) \<and>
   map_of (cols (strip_columns example_investments)) ''funding_total_usd'' =
     Some [VStr '' 1,000,000 '', VStr '' - '', VNum FNaN] \<and>
   is_object [VStr '' 1,000,000 '', VStr '' - '', VNum FNaN] \<and>
   (\<exists>df col'. load_data example_env ''investments_VC.csv'' = Inr df \<and>
      get_col df ''funding_total_usd'' = Inr col' \<and> length col' = 3 \<and>
      clean_currency (VStr '' 1,000,000 '') = Inr (col' ! 0) \<and>
      clean_currency (VStr '' - '') = Inr (col' ! 1) \<and>
      clean_currency (VStr ''nan'') = Inr (col' ! 2))"
proof -
  define df where "df =
     \<lparr> row_labels = [VNum (FNum 0), VNum (FNum 1), VNum (FNum 2)],
       cols =
         [(''name'', [VStr ''A'', VStr ''B'', VStr ''C'']),
          (''funding_total_usd'', [VNum (FNum 1000000), VNum (FNum 0), VNum FNaN]),
          (''status'', [VStr ''acquired'', VStr ''acquired'', VStr ''operating'']),
          (''founded_at'', [VTime 1262304000000000000, VTime 1262304000000000000,
                            VTime 1262304000000000000]),
          (''last_funding_at'', [VTime 1325376000000000000, VTime 1270080000000000000,
                                 VTime 1325376000000000000]),
          (''founded_year'', [VNum (FNum 2010), VNum (FNum 2010), VNum (FNum 2010)]),
          (''years_to_exit'', [VNum (FNum 2), VNum FNaN, VNum FNaN])],
       tz_cols = [] \<rparr>"
  let ?col = "[VStr '' 1,000,000 '', VStr '' - '', VNum FNaN]"
  have a: "CHR ''-'' \<notin> set '' 1,000,000 ''" by simp
  have b: "py_float (remove_char (CHR '','') (py_strip '' 1,000,000 '')) = Inr (FNum 1000000)"
    by code_simp
  have c: "py_float (remove_char (CHR '','') (py_strip ''n/a'')) = Inl ValueError" by code_simp
  have rd: "read_primary example_env ''investments_VC.csv'' = Inr example_investments"
    by code_simp
  have wf: "wf_frame (strip_columns example_investments)"
    by code_simp
  have fu: "map_of (cols (strip_columns example_investments)) ''funding_total_usd'' = Some ?col"
    by code_simp
  have ob: "is_object ?col"
    by code_simp
  have ld: "load_data example_env ''investments_VC.csv'' = Inr df"
    unfolding df_def by code_simp
  note t1 = clean_currency_float[of "'' 1,000,000 ''" example_env "''investments_VC.csv''"
      example_investments ?col df]
  note t2 = clean_currency_float[of "''n/a''" example_env "''investments_VC.csv''"
      example_investments ?col df]
  from t1 obtain v where v: "clean_currency (VStr '' 1,000,000 '') = Inr (VNum v)"
    and v1: "CHR ''-'' \<notin> set '' 1,000,000 '' \<longrightarrow> v = FNaN \<or> nonneg v"
    and v2: "\<forall>w. py_float (remove_char (CHR '','') (py_strip '' 1,000,000 '')) = Inr w \<longrightarrow> v = w"
    by blast
  have vv: "v = FNum 1000000"
    using v2 b by blast
  have d: "clean_currency (VStr '' 1,000,000 '') = Inr (VNum (FNum 1000000))"
    using v vv by simp
  have e: "nonneg (FNum 1000000)"
    using v1 a vv by simp
  from t2 obtain u where u: "clean_currency (VStr ''n/a'') = Inr (VNum u)"
    and u1: "py_float (remove_char (CHR '','') (py_strip ''n/a'')) = Inl ValueError \<longrightarrow> u = FNum 0"
    by blast
  have f: "clean_currency (VStr ''n/a'') = Inr (VNum (FNum 0))"
    using u u1 c by simp
  from t1 rd wf fu ld obtain col' where g: "get_col df ''funding_total_usd'' = Inr col'"
    and lc: "length col' = length ?col"
    and cells: "\<forall>i<length ?col.
            if is_object ?col
            then clean_currency (VStr (astype_str example_env (?col ! i))) = Inr (col' ! i)
            else col' ! i = ?col ! i"
    by blast
  have l3: "length col' = 3" using lc by simp
  have c0: "clean_currency (VStr '' 1,000,000 '') = Inr (col' ! 0)"
    using cells[rule_format, of 0] ob by (simp add: astype_str_def)
  have c1: "clean_currency (VStr '' - '') = Inr (col' ! 1)"
    using cells[rule_format, of 1] ob by (simp add: astype_str_def)
  have c2: "clean_currency (VStr ''nan'') = Inr (col' ! 2)"
    using cells[rule_format, of 2] ob by (simp add: astype_str_def)
  have h: "\<exists>df col'. load_data example_env ''investments_VC.csv'' = Inr df \<and>
      get_col df ''funding_total_usd'' = Inr col' \<and> length col' = 3 \<and>
      clean_currency (VStr '' 1,000,000 '') = Inr (col' ! 0) \<and>
      clean_currency (VStr '' - '') = Inr (col' ! 1) \<and>
      clean_currency (VStr ''nan'') = Inr (col' ! 2)"
    using ld g l3 c0 c1 c2 by blast
  show ?thesis
    by (intro conjI a b d e c f rd wf fu ob h)
qed

text \<open>
  C10, as the specification states it, fails: the status column is not the only one read without
  a presence test. A table that has a status column and no \<open>last_funding_at\<close> column
  makes \<open>load_data\<close> raise \<open>KeyError\<close> all the same.
\<close>

theorem load_data_status_counterexample:
  "has_col (strip_columns status_only) ''status'' \<and>
   load_data (example_pandas (one_file ''investments_VC.csv'' status_only)) ''investments_VC.csv'' =
     Inl (KeyError ''last_funding_at'')"
  by code_simp

text \<open>
  C10, amended. \<open>load_data\<close> is partial on its input schema. For every table read
  from the file, \<open>load_data\<close> raises when, after the column names are stripped,
  \<open>status\<close>, \<open>last_funding_at\<close> or \<open>founded_at\<close> is missing: step 7 reads these
  three columns without a presence test. Under the precondition that a status column is
  present, the error branch of the status column is unreachable: whatever \<open>load_data\<close>
  does then, it does not raise \<open>KeyError('status')\<close>.
\<close>

theorem load_data_required_columns:
  assumes rd: "read_primary E filepath = Inr df0"
  shows
    "(\<not> has_col (strip_columns df0) ''status'' \<or>
      \<not> has_col (strip_columns df0) ''last_funding_at'' \<or>
      \<not> has_col (strip_columns df0) ''founded_at'' \<longrightarrow>
        isl (load_data E filepath)) \<and>
     (has_col (strip_columns df0) ''status'' \<longrightarrow>
        load_data E filepath \<noteq> Inl (KeyError ''status''))"
proof -
  let ?s = "strip_columns df0"
  obtain df2 where dom: "dom (map_of (cols df2)) = dom (map_of (cols ?s))"
    and run: "load_data E filepath = years_to_exit_step (prepared E df2)"
    using load_data_prepared[OF rd, of 0] by auto
  let ?p = "prepared E df2"
  have h: "map_of (cols ?p) name = None \<longleftrightarrow> \<not> has_col ?s name"
    if "name \<noteq> ''founded_year''" for name
    using prepared_has[OF that, of E df2] dom by (auto simp: has_col_def domIff)
  have st: "map_of (cols ?p) ''status'' = None \<longleftrightarrow> \<not> has_col ?s ''status''"
    and lf: "map_of (cols ?p) ''last_funding_at'' = None \<longleftrightarrow> \<not> has_col ?s ''last_funding_at''"
    and fa: "map_of (cols ?p) ''founded_at'' = None \<longleftrightarrow> \<not> has_col ?s ''founded_at''"
    by (simp_all add: h)
  have err: "isl (load_data E filepath)"
    if m: "\<not> has_col ?s ''status'' \<or> \<not> has_col ?s ''last_funding_at'' \<or>
           \<not> has_col ?s ''founded_at''"
  proof -
    have "map_of (cols ?p) ''status'' = None \<or>
          (map_of (cols ?p) ''status'' \<noteq> None \<and> map_of (cols ?p) ''last_funding_at'' = None) \<or>
          (map_of (cols ?p) ''status'' \<noteq> None \<and> map_of (cols ?p) ''last_funding_at'' \<noteq> None \<and>
           map_of (cols ?p) ''founded_at'' = None)"
      using m st lf fa by blast
    then have "isl (years_to_exit_step ?p)"
      using years_to_exit_step_error[of ?p] by (elim disjE) simp_all
    then show ?thesis using run by simp
  qed
  have ok: "load_data E filepath \<noteq> Inl (KeyError ''status'')" if hs: "has_col ?s ''status''"
  proof -
    have "map_of (cols ?p) ''status'' \<noteq> None"
      using hs st by simp
    then obtain status where "map_of (cols ?p) ''status'' = Some status"
      by auto
    then show ?thesis
      using years_to_exit_step_not_status run by simp
  qed
  show ?thesis using err ok by blast
qed

theorem load_data_required_columns_witness:
  "read_primary (example_pandas (one_file ''investments_VC.csv'' no_status)) ''investments_VC.csv'' =
     Inr no_status \<and>
   \<not> has_col (strip_columns no_status) ''status'' \<and>
   isl (load_data (example_pandas (one_file ''investments_VC.csv'' no_status))
          ''investments_VC.csv'') \<and>
   read_primary (example_pandas (one_file ''investments_VC.csv'' status_only)) ''investments_VC.csv'' =
     Inr status_only \<and>
   \<not> has_col (strip_columns status_only) ''last_funding_at'' \<and>
   isl (load_data (example_pandas (one_file ''investments_VC.csv'' status_only))
          ''investments_VC.csv'') \<and>
   read_primary (example_pandas (one_file ''investments_VC.csv'' no_founded)) ''investments_VC.csv'' =
     Inr no_founded \<and>
   \<not> has_col (strip_columns no_founded) ''founded_at'' \<and>
   isl (load_data (example_pandas (one_file ''investments_VC.csv'' no_founded))
          ''investments_VC.csv'') \<and>
   read_primary example_env ''investments_VC.csv'' = Inr example_investments \<and>
   has_col (strip_columns example_investments) ''status'' \<and>
   load_data example_env ''investments_VC.csv'' \<noteq> Inl (KeyError ''status'')"
proof -
  let ?E = "example_pandas (one_file ''investments_VC.csv'' no_status)"
  let ?F = "example_pandas (one_file ''investments_VC.csv'' no_founded)"
  let ?G = "example_pandas (one_file ''investments_VC.csv'' status_only)"
  have rd: "read_primary ?E ''investments_VC.csv'' = Inr no_status" by code_simp
  have ns: "\<not> has_col (strip_columns no_status) ''status''" by code_simp
  have rd0: "read_primary ?G ''investments_VC.csv'' = Inr status_only" by code_simp
  have h0: "\<not> has_col (strip_columns status_only) ''last_funding_at''" by code_simp
  have rd1: "read_primary ?F ''investments_VC.csv'' = Inr no_founded" by code_simp
  have h1: "\<not> has_col (strip_columns no_founded) ''founded_at''" by code_simp
  have rd2: "read_primary example_env ''investments_VC.csv'' = Inr example_investments"
    by code_simp
  have hs: "has_col (strip_columns example_investments) ''status''"
    by code_simp
  note t = load_data_required_columns[OF rd]
  note t0 = load_data_required_columns[OF rd0]
  note t1 = load_data_required_columns[OF rd1]
  note t2 = load_data_required_columns[OF rd2]
  have a: "isl (load_data ?E ''investments_VC.csv'')"
    by (rule mp[OF t[THEN conjunct1] disjI1[OF ns]])
  have a0: "isl (load_data ?G ''investments_VC.csv'')"
    by (rule mp[OF t0[THEN conjunct1] disjI2[OF disjI1[OF h0]]])
  have b: "isl (load_data ?F ''investments_VC.csv'')"
    by (rule mp[OF t1[THEN conjunct1] disjI2[OF disjI2[OF h1]]])
  have c: "load_data example_env ''investments_VC.csv'' \<noteq> Inl (KeyError ''status'')"
    by (rule mp[OF t2[THEN conjunct2] hs])
  show ?thesis
    by (intro conjI rd ns a rd0 h0 a0 rd1 h1 b rd2 hs c)
qed

section \<open>Properties of the sector metrics\<close>

lemma list_all2_in_right: "list_all2 P xs ys \<Longrightarrow> y \<in> set ys \<Longrightarrow> \<exists>x \<in> set xs. P x y"
  by (induction rule: list_all2_induct) auto

text \<open>
  What holds of every table \<open>get_sector_metrics\<close> returns: each sector in it has more
  than 5 deals, its rates are the quotients of its aggregates, and the rows are in
  descending order of total funding (NaN last).
\<close>

lemma sector_metrics_rows:
  assumes "get_sector_metrics df = Inr rows"
  shows "(\<forall>r \<in> set rows.
            5 < deal_count r \<and>
            success_rate r = rat_of_nat (exit_count r) / rat_of_nat (deal_count r) * 100 \<and>
            avg_deal_size r = fdiv_count (total_funding_usd r) (deal_count r)) \<and>
         sorted (map (\<lambda>r. desc_key (total_funding_usd r)) rows)"
proof -
  from assms obtain metrics rows0 where
    tm: "try_map derive_rates (filter (\<lambda>m. 5 < agg_deals m) metrics) = Inr rows0"
    and rows: "rows = sort_key (\<lambda>r. desc_key (total_funding_usd r)) rows0"
    by (auto simp: get_sector_metrics_def split: sum.splits)
  have "5 < deal_count r \<and>
        success_rate r = rat_of_nat (exit_count r) / rat_of_nat (deal_count r) * 100 \<and>
        avg_deal_size r = fdiv_count (total_funding_usd r) (deal_count r)"
    if "r \<in> set rows" for r
  proof -
    have "r \<in> set rows0"
      using that unfolding rows by simp
    then obtain m where "m \<in> set (filter (\<lambda>m. 5 < agg_deals m) metrics)"
      and "derive_rates m = Inr r"
      using list_all2_in_right[OF try_map_Inr[OF tm]] by blast
    then show ?thesis
      by (auto simp: derive_rates_def split: pyval.splits)
  qed
  moreover have "sorted (map (\<lambda>r. desc_key (total_funding_usd r)) rows)"
    unfolding rows by (rule sorted_sort_key)
  ultimately show ?thesis by blast
qed

text \<open>
  C7. The specification is right about what the table is for, and the code misses it in
  one case: \<open>deal_count\<close> counts the names that are present, \<open>exit_count\<close> counts rows. A
  sector of seven acquired companies of which one has no name gets 6 deals and 7 exits,
  so its success rate is 116.67, above 100.
\<close>

theorem sector_success_rate_above_100:
  "get_sector_metrics example_unnamed =
     Inr [\<lparr> market = VStr ''Biotechnology'', total_funding_usd = FNum 7000000,
             deal_count = 6, exit_count = 7, avg_years_to_exit = FNum 2,
             success_rate = 350 / 3, avg_deal_size = FNum (3500000 / 3) \<rparr>] \<and>
   \<not> (350 / 3 \<le> (100 :: rat))"
  by code_simp

section \<open>Properties of the encoders, the training and the optional loaders\<close>

lemma index_of_less: "x \<in> set xs \<Longrightarrow> index_of x xs < length xs"
  by (induction xs) auto

lemma index_of_nth: "x \<in> set xs \<Longrightarrow> xs ! index_of x xs = x"
  by (induction xs) auto

lemma le_fit_nonempty: "xs \<noteq> [] \<Longrightarrow> classes (le_fit xs) \<noteq> []"
proof
  assume ne: "xs \<noteq> []" and "classes (le_fit xs) = []"
  then have "set (sort (remdups xs)) = set []"
    by (simp add: le_fit_def)
  then have "set xs = {}"
    by (simp only: set_sort set_remdups list.set)
  then show False using ne by simp
qed

text \<open>
  C1, as the specification states it, fails for the country: \<open>predict_success\<close> never tries
  \<open>Other\<close> for it. With the country classes \<open>CAN\<close> and \<open>Other\<close>, the unseen country
  \<open>ZZZ\<close> is encoded as 0 (the code of \<open>CAN\<close>), where the policy gives 1 (the code of
  \<open>Other\<close>).
\<close>

theorem country_fallback_counterexample:
  "classes (le_fit [''Other'', ''CAN'']) = [''CAN'', ''Other''] \<and>
   country_code_enc (le_fit [''Other'', ''CAN'']) ''ZZZ'' = 0 \<and>
   encode_with_fallback (le_fit [''Other'', ''CAN'']) ''ZZZ'' = 1"
  by code_simp

text \<open>
  C1, amended. For every pair of encoders and all strings, the encoding in
  \<open>predict_success\<close> does not raise. The category follows the policy: its own code if
  it is in the vocabulary, else the code of \<open>Other\<close> if that is, else 0. The country
  has its own code if it is in the vocabulary and 0 otherwise. A value of the vocabulary
  is encoded as its position, and when the vocabulary is not empty (as that of an
  encoder fitted on at least one row is) both codes lie in \<open>0..V-1\<close>.
\<close>

theorem encoding_fallback:
  "category_enc le_category category = encode_with_fallback le_category category \<and>
   country_code_enc le_country country =
     (if country \<in> set (classes le_country) then index_of country (classes le_country) else 0) \<and>
   (country \<in> set (classes le_country) \<longrightarrow>
      classes le_country ! country_code_enc le_country country = country) \<and>
   (classes le_country \<noteq> [] \<longrightarrow>
      country_code_enc le_country country < length (classes le_country)) \<and>
   (classes le_category \<noteq> [] \<longrightarrow>
      category_enc le_category category < length (classes le_category)) \<and>
   (xs \<noteq> [] \<longrightarrow> classes (le_fit xs) \<noteq> []) \<and>
   predict_success S model (le_country, le_category) funding rounds country category =
     predict_proba S model
       (funding, rounds, country_code_enc le_country country, category_enc le_category category)"
proof -
  have cat: "category_enc le_category category = encode_with_fallback le_category category"
    by (simp add: category_enc_def encode_with_fallback_def le_transform_def)
  have cou: "country_code_enc le_country country =
     (if country \<in> set (classes le_country) then index_of country (classes le_country) else 0)"
    by (simp add: country_code_enc_def le_transform_def)
  have own: "classes le_country ! country_code_enc le_country country = country"
    if "country \<in> set (classes le_country)"
    using that by (simp add: cou index_of_nth)
  have r1: "country_code_enc le_country country < length (classes le_country)"
    if "classes le_country \<noteq> []"
    using that by (simp add: cou index_of_less)
  have r2: "category_enc le_category category < length (classes le_category)"
    if "classes le_category \<noteq> []"
    using that by (simp add: cat encode_with_fallback_def index_of_less)
  have ps: "predict_success S model (le_country, le_category) funding rounds country category =
     predict_proba S model
       (funding, rounds, country_code_enc le_country country, category_enc le_category category)"
    by (simp add: predict_success_def)
  show ?thesis using cat cou own r1 r2 le_fit_nonempty[of xs] ps by blast
qed

theorem encoding_fallback_witness:
  "classes (le_fit [''USA'', ''CAN'', ''USA'']) = [''CAN'', ''USA''] \<and>
   ''USA'' \<in> set (classes (le_fit [''USA'', ''CAN'', ''USA''])) \<and>
   classes (le_fit [''USA'', ''CAN'', ''USA'']) !
     country_code_enc (le_fit [''USA'', ''CAN'', ''USA'']) ''USA'' = ''USA'' \<and>
   country_code_enc (le_fit [''USA'', ''CAN'', ''USA'']) ''ZZZ'' <
     length (classes (le_fit [''USA'', ''CAN'', ''USA''])) \<and>
   category_enc (le_fit [''USA'', ''CAN'', ''USA'']) ''ZZZ'' <
     length (classes (le_fit [''USA'', ''CAN'', ''USA'']))"
proof -
  let ?le = "le_fit [''USA'', ''CAN'', ''USA'']"
  have c: "classes ?le = [''CAN'', ''USA'']" by code_simp
  have m: "''USA'' \<in> set (classes ?le)" by (simp add: c)
  have n: "classes ?le \<noteq> []" by (simp add: c)
  note t = encoding_fallback[of ?le "''ZZZ''" ?le "''ZZZ''"]
  note u = encoding_fallback[of ?le "''ZZZ''" ?le "''USA''"]
  have a: "classes ?le ! country_code_enc ?le ''USA'' = ''USA''"
    by (rule mp[OF u[THEN conjunct2, THEN conjunct2, THEN conjunct1] m])
  have b: "country_code_enc ?le ''ZZZ'' < length (classes ?le)"
    by (rule mp[OF t[THEN conjunct2, THEN conjunct2, THEN conjunct2, THEN conjunct1] n])
  have d: "category_enc ?le ''ZZZ'' < length (classes ?le)"
    by (rule mp[OF t[THEN conjunct2, THEN conjunct2, THEN conjunct2, THEN conjunct2,
          THEN conjunct1] n])
  show ?thesis
    by (intro conjI c m a b d)
qed

text \<open>
  C4. The specification asks for \<open>Other\<close> when \<open>category_list\<close> is missing. The code converts
  the column with \<open>astype(str)\<close> before the \<open>lambda\<close>, so the test for a string in it
  never fails: a missing value arrives as the text \<open>nan\<close> and that is the primary
  category. For a string the first token is taken, as specified.
\<close>

theorem primary_category_of_missing:
  "primary_category E (VNum FNaN) = ''nan'' \<and>
   primary_category E (VStr ''Software|Mobile'') = ''Software''"
  by (simp add: primary_category_def first_token_def astype_str_def)

text \<open>
  C8. When the file cannot be read (the default read raises any exception),
  \<open>load_unicorn_data\<close> and \<open>load_saas_data\<close> return the empty table and
  \<open>train_success_model\<close> returns \<open>(None, None)\<close>; when neither the UTF-8 nor the
  ISO-8859-1 read succeeds, \<open>load_investor_data\<close> returns the empty table. None of
  them raises there.
\<close>

theorem read_failure_gives_empty:
  "(isl (read_csv E filepath DefaultEncoding) \<longrightarrow>
      load_unicorn_data E filepath = Inr empty_frame \<and>
      load_saas_data E filepath = Inr empty_frame \<and>
      train_success_model E S filepath = Inr (None, None)) \<and>
   (isl (read_csv E filepath Utf8) \<and> isl (read_csv E filepath Latin1) \<longrightarrow>
      load_investor_data E filepath = Inr empty_frame)"
proof -
  have a: "load_unicorn_data E filepath = Inr empty_frame \<and>
      load_saas_data E filepath = Inr empty_frame \<and>
      train_success_model E S filepath = Inr (None, None)"
    if "isl (read_csv E filepath DefaultEncoding)"
    using that
    by (cases "read_csv E filepath DefaultEncoding")
       (simp_all add: load_unicorn_data_def load_saas_data_def train_success_model_def)
  have b: "load_investor_data E filepath = Inr empty_frame"
    if "isl (read_csv E filepath Utf8) \<and> isl (read_csv E filepath Latin1)"
    using that
    by (cases "read_csv E filepath Utf8"; cases "read_csv E filepath Latin1")
       (simp_all add: load_investor_data_def)
  show ?thesis using a b by blast
qed

theorem read_failure_gives_empty_witness:
  "isl (read_csv (example_pandas no_files) ''unicorns2022.csv'' DefaultEncoding) \<and>
   isl (read_csv (example_pandas no_files) ''unicorns2022.csv'' Utf8) \<and>
   isl (read_csv (example_pandas no_files) ''unicorns2022.csv'' Latin1) \<and>
   load_unicorn_data (example_pandas no_files) ''unicorns2022.csv'' = Inr empty_frame \<and>
   load_saas_data (example_pandas no_files) ''unicorns2022.csv'' = Inr empty_frame \<and>
   train_success_model (example_pandas no_files) example_sklearn ''unicorns2022.csv'' =
     Inr (None, None) \<and>
   load_investor_data (example_pandas no_files) ''unicorns2022.csv'' = Inr empty_frame"
proof -
  let ?E = "example_pandas no_files"
  have r: "isl (read_csv ?E ''unicorns2022.csv'' DefaultEncoding)"
    "isl (read_csv ?E ''unicorns2022.csv'' Utf8)"
    "isl (read_csv ?E ''unicorns2022.csv'' Latin1)"
    by (simp_all add: example_pandas_def no_files_def)
  note t = read_failure_gives_empty[of ?E "''unicorns2022.csv''" example_sklearn]
  have a: "load_unicorn_data ?E ''unicorns2022.csv'' = Inr empty_frame \<and>
      load_saas_data ?E ''unicorns2022.csv'' = Inr empty_frame \<and>
      train_success_model ?E example_sklearn ''unicorns2022.csv'' = Inr (None, None)"
    by (rule mp[OF t[THEN conjunct1] r(1)])
  have b: "load_investor_data ?E ''unicorns2022.csv'' = Inr empty_frame"
    by (rule mp[OF t[THEN conjunct2] conjI[OF r(2) r(3)]])
  show ?thesis
    by (intro conjI r a[THEN conjunct1] a[THEN conjunct2, THEN conjunct1]
          a[THEN conjunct2, THEN conjunct2] b)
qed

end
